theory Spec2Isabelle
  imports Main
begin

section \<open>Python values, dictionaries and strings\<close>

text \<open>
  The values that can occur in the YAML configuration and in the keyword arguments of a
  chat-model constructor. A dictionary is an association list in insertion order, as a
  Python \<open>dict\<close> is. The two \<open>httpx\<close> transports carry their \<open>verify\<close> flag.
\<close>

datatype pyval =
    PNone
  | PBool bool
  | PInt int
  | PStr string
  | PList "pyval list"
  | PDict "(string \<times> pyval) list"
  | PHttpClient bool
  | PHttpAsyncClient bool

type_synonym pydict = "(string \<times> pyval) list"

text \<open>Python truthiness (\<open>if x:\<close>, \<open>not x\<close>, \<open>x or y\<close>).\<close>

fun truthy :: "pyval \<Rightarrow> bool" where
  "truthy PNone = False"
| "truthy (PBool b) = b"
| "truthy (PInt i) = (i \<noteq> 0)"
| "truthy (PStr s) = (s \<noteq> [])"
| "truthy (PList xs) = (xs \<noteq> [])"
| "truthy (PDict d) = (d \<noteq> [])"
| "truthy (PHttpClient v) = True"
| "truthy (PHttpAsyncClient v) = True"

text \<open>\<open>isinstance(v, dict)\<close>.\<close>

fun is_dict :: "pyval \<Rightarrow> bool" where
  "is_dict (PDict d) = True"
| "is_dict v = False"

text \<open>\<open>d[k] = v\<close>: an existing key keeps its position, a new key is appended.\<close>

fun dict_set :: "'k \<Rightarrow> 'v \<Rightarrow> ('k \<times> 'v) list \<Rightarrow> ('k \<times> 'v) list" where
  "dict_set k v [] = [(k, v)]"
| "dict_set k v (p # d) = (if fst p = k then (k, v) # d else p # dict_set k v d)"

text \<open>\<open>d.pop(k, default)\<close> leaves the dictionary without the key \<open>k\<close>.\<close>

definition dict_del :: "'k \<Rightarrow> ('k \<times> 'v) list \<Rightarrow> ('k \<times> 'v) list" where
  "dict_del k d = filter (\<lambda>p. fst p \<noteq> k) d"

text \<open>\<open>d.setdefault(k, v)\<close>, for its effect on \<open>d\<close>.\<close>

definition dict_setdefault :: "'k \<Rightarrow> 'v \<Rightarrow> ('k \<times> 'v) list \<Rightarrow> ('k \<times> 'v) list" where
  "dict_setdefault k v d = (case map_of d k of None \<Rightarrow> dict_set k v d | Some u \<Rightarrow> d)"

text \<open>\<open>{**d, **e}\<close>: the items of \<open>e\<close> are stored into a copy of \<open>d\<close>, left to right.\<close>

fun dict_update :: "('k \<times> 'v) list \<Rightarrow> ('k \<times> 'v) list \<Rightarrow> ('k \<times> 'v) list" where
  "dict_update d [] = d"
| "dict_update d (p # e) = dict_update (dict_set (fst p) (snd p) d) e"

text \<open>
  \<open>str.upper\<close> and \<open>str.lower\<close> on the ASCII letters; every other character is left as
  it is.
\<close>

definition upper_char :: "char \<Rightarrow> char" where
  "upper_char c =
     (case map_of (zip ''abcdefghijklmnopqrstuvwxyz'' ''ABCDEFGHIJKLMNOPQRSTUVWXYZ'') c of
        None \<Rightarrow> c
      | Some u \<Rightarrow> u)"

definition lower_char :: "char \<Rightarrow> char" where
  "lower_char c =
     (case map_of (zip ''ABCDEFGHIJKLMNOPQRSTUVWXYZ'' ''abcdefghijklmnopqrstuvwxyz'') c of
        None \<Rightarrow> c
      | Some l \<Rightarrow> l)"

definition upper :: "string \<Rightarrow> string" where
  "upper s = map upper_char s"

definition lower :: "string \<Rightarrow> string" where
  "lower s = map lower_char s"

text \<open>\<open>s.startswith(p)\<close>.\<close>

fun startswith :: "string \<Rightarrow> string \<Rightarrow> bool" where
  "startswith s [] = True"
| "startswith [] (c # p) = False"
| "startswith (a # s) (c # p) = (a = c \<and> startswith s p)"

text \<open>\<open>p in s\<close> for two strings: \<open>p\<close> occurs in \<open>s\<close> as a contiguous substring.\<close>

fun str_contains :: "string \<Rightarrow> string \<Rightarrow> bool" where
  "str_contains [] p = (p = [])"
| "str_contains (a # s) p = (startswith (a # s) p \<or> str_contains s p)"

section \<open>Exceptions\<close>

text \<open>
  A formatted message is kept as the fragments of its f-string: literal text and the
  values substituted into it.
\<close>

datatype frag = Lit string | Fmt pyval

datatype exc_class = ValueError | TypeError | AttributeError | ExternalError

text \<open>
  An exception is its Python class and its message. \<open>ExternalError\<close> stands for any
  exception (a subclass of \<open>Exception\<close>) raised by an external collaborator: the YAML
  loader or \<open>httpx\<close>.
\<close>

datatype pyexc = Exc (exc_class: exc_class) (exc_args: "frag list")

text \<open>
  \<open>p in v\<close> for a string \<open>p\<close> and any value \<open>v\<close>: substring test on a string, membership
  on a list, key membership on a dictionary, \<open>TypeError\<close> on everything else.
\<close>

fun py_contains :: "string \<Rightarrow> pyval \<Rightarrow> pyexc + bool" where
  "py_contains p (PStr s) = Inr (str_contains s p)"
| "py_contains p (PList xs) = Inr (PStr p \<in> set xs)"
| "py_contains p (PDict d) = Inr (map_of d p \<noteq> None)"
| "py_contains p v = Inl (Exc TypeError [])"

text \<open>\<open>conf.get(key, {})\<close> on the loaded configuration; only a \<open>dict\<close> has \<open>get\<close>.\<close>

fun py_get :: "pyval \<Rightarrow> string \<Rightarrow> pyval \<Rightarrow> pyexc + pyval" where
  "py_get (PDict d) key dflt = Inr (case map_of d key of None \<Rightarrow> dflt | Some v \<Rightarrow> v)"
| "py_get v key dflt = Inl (Exc AttributeError [])"

section \<open>The process environment and the program state\<close>

text \<open>
  What a call reads from outside: \<open>os.environ\<close>, the result of
  \<open>load_yaml_config(_get_config_file_path())\<close> (a value or an exception), and the network:
  the answer of \<open>httpx.get(url, timeout=1.0)\<close>, an exception or a status code, which may
  depend on the requests issued before.
\<close>

record world =
  environ :: "(string \<times> string) list"
  load_yaml_config :: "pyexc + pyval"
  httpx_get :: "string list \<Rightarrow> string \<Rightarrow> pyexc + int"

datatype provider = AzureChatOpenAI | ChatDashscope | ChatDeepSeek | ChatOpenAI

text \<open>
  A constructed chat model: its identity (\<open>oid\<close>, two references are the same object
  exactly when their \<open>oid\<close> agree), its class and the keyword arguments it was built from.
\<close>

record client =
  oid :: nat
  cls :: provider
  kwargs :: pydict

text \<open>
  The mutable state: the module-level \<open>_llm_cache\<close>, the number of chat models
  constructed so far (the next fresh identity) and the log of HTTP requests sent.
\<close>

record state =
  llm_cache :: "(string \<times> client) list"
  next_oid :: nat
  requests :: "string list"

definition init_state :: state where
  "init_state = \<lparr>llm_cache = [], next_oid = 0, requests = []\<rparr>"

text \<open>\<open>os.getenv(name)\<close>.\<close>

definition getenv :: "world \<Rightarrow> string \<Rightarrow> string option" where
  "getenv w name = map_of (environ w) name"

text \<open>The truth value of \<open>os.getenv(name)\<close>: the variable is set and not empty.\<close>

definition getenv_truthy :: "world \<Rightarrow> string \<Rightarrow> bool" where
  "getenv_truthy w name = (case getenv w name of None \<Rightarrow> False | Some v \<Rightarrow> v \<noteq> [])"

text \<open>
  A constructor call \<open>Cls(**kwargs)\<close> that the class accepts: a new object with a fresh
  identity. The chat-model classes are external collaborators. They validate their
  options and can raise; that validation is not part of this module and is not modelled
  here, so a statement about a returned client speaks of the calls that the constructor
  accepts. The arguments of the call itself are given by \<open>create_llm_call\<close> below.
\<close>

definition construct :: "provider \<Rightarrow> pydict \<Rightarrow> state \<Rightarrow> (pyexc + client) \<times> state" where
  "construct c kw s =
     (Inr \<lparr>oid = next_oid s, cls = c, kwargs = kw\<rparr>, s\<lparr>next_oid := Suc (next_oid s)\<rparr>)"

section \<open>The module \<open>src/llms/llm.py\<close>\<close>

text \<open>\<open>_get_llm_type_config_keys\<close> (lines 26-33).\<close>

definition get_llm_type_config_keys :: "(string \<times> string) list" where
  "get_llm_type_config_keys =
     [(''reasoning'', ''REASONING_MODEL''),
      (''basic'', ''BASIC_MODEL''),
      (''vision'', ''VISION_MODEL''),
      (''code'', ''CODE_MODEL'')]"

text \<open>\<open>_get_env_llm_conf\<close> (lines 36-48): the loop over \<open>os.environ.items()\<close>.\<close>

fun env_conf_loop :: "string \<Rightarrow> (string \<times> string) list \<Rightarrow> pydict \<Rightarrow> pydict" where
  "env_conf_loop prefix [] conf = conf"
| "env_conf_loop prefix (kv # items) conf =
     (if startswith (fst kv) prefix
      then env_conf_loop prefix items
             (dict_set (lower (drop (length prefix) (fst kv))) (PStr (snd kv)) conf)
      else env_conf_loop prefix items conf)"

definition get_env_llm_conf :: "world \<Rightarrow> string \<Rightarrow> pydict" where
  "get_env_llm_conf w llm_type = env_conf_loop (upper llm_type @ ''_MODEL__'') (environ w) []"

text \<open>\<open>_detect_lmstudio_base_url\<close> (lines 56-88).\<close>

definition candidate_hosts :: "world \<Rightarrow> string list" where
  "candidate_hosts w =
     (let hosts = [''http://localhost:1234'', ''http://127.0.0.1:1234'', ''http://192.168.2.65:1234'']
      in case getenv w ''LMSTUDIO_LAN_HOST'' of
           None \<Rightarrow> hosts
         | Some lan_host \<Rightarrow>
             if lan_host \<noteq> [] then (''http://'' @ lan_host @ '':1234'') # hosts else hosts)"

definition models_url :: "string \<Rightarrow> string" where
  "models_url host = host @ ''/v1/models''"

text \<open>
  The \<open>for host in candidate_hosts\<close> loop. An exception of \<open>httpx.get\<close> is caught by
  \<open>except Exception: continue\<close>; a status other than 200 falls through to the next host.
\<close>

fun probe_hosts :: "world \<Rightarrow> string list \<Rightarrow> state \<Rightarrow> (pyexc + string option) \<times> state" where
  "probe_hosts w [] s = (Inr None, s)"
| "probe_hosts w (host # hosts) s =
     (let s' = s\<lparr>requests := requests s @ [models_url host]\<rparr>
      in case httpx_get w (requests s) (models_url host) of
           Inl e \<Rightarrow> probe_hosts w hosts s'
         | Inr status_code \<Rightarrow>
             if status_code = 200 then (Inr (Some (host @ ''/v1'')), s')
             else probe_hosts w hosts s')"

definition detect_lmstudio_base_url :: "world \<Rightarrow> state \<Rightarrow> (pyexc + string option) \<times> state" where
  "detect_lmstudio_base_url w s = probe_hosts w (candidate_hosts w) s"

text \<open>The prober's result (\<open>str | None\<close>) as a Python value.\<close>

fun str_opt_val :: "string option \<Rightarrow> pyval" where
  "str_opt_val None = PNone"
| "str_opt_val (Some u) = PStr u"

text \<open>
  \<open>_create_llm_use_conf\<close>, lines 93-101: the role's configuration key and its YAML
  sub-section.
\<close>

definition lookup_llm_conf :: "string \<Rightarrow> pyval \<Rightarrow> pyexc + pydict" where
  "lookup_llm_conf llm_type conf =
     (case map_of get_llm_type_config_keys llm_type of
        None \<Rightarrow> Inl (Exc ValueError [Lit ''Unknown LLM type: '', Fmt (PStr llm_type)])
      | Some config_key \<Rightarrow>
          if config_key = [] then Inl (Exc ValueError [Lit ''Unknown LLM type: '', Fmt (PStr llm_type)])
          else (case py_get conf config_key (PDict []) of
                  Inl e \<Rightarrow> Inl e
                | Inr (PDict llm_conf) \<Rightarrow> Inr llm_conf
                | Inr v \<Rightarrow>
                    Inl (Exc ValueError
                          [Lit ''Invalid LLM configuration for '', Fmt (PStr llm_type), Lit '': '', Fmt v])))"

text \<open>Lines 93-107: up to \<open>merged_conf = {**llm_conf, **env_conf}\<close>.\<close>

definition merge_llm_conf :: "world \<Rightarrow> string \<Rightarrow> pyval \<Rightarrow> pyexc + pydict" where
  "merge_llm_conf w llm_type conf =
     (case lookup_llm_conf llm_type conf of
        Inl e \<Rightarrow> Inl e
      | Inr llm_conf \<Rightarrow> Inr (dict_update llm_conf (get_env_llm_conf w llm_type)))"

text \<open>Lines 109-121: the implicit LM Studio detection for an empty configuration.\<close>

definition lmstudio_fallback :: "world \<Rightarrow> string \<Rightarrow> pydict \<Rightarrow> state \<Rightarrow> (pyexc + pydict) \<times> state" where
  "lmstudio_fallback w llm_type merged_conf s =
     (if merged_conf = [] then
        (case detect_lmstudio_base_url w s of
           (Inl e, s') \<Rightarrow> (Inl e, s')
         | (Inr lmstudio_base, s') \<Rightarrow>
             if truthy (str_opt_val lmstudio_base)
             then (Inr [(''api_base'', str_opt_val lmstudio_base),
                        (''api_key'', PStr ''lm-studio''),
                        (''streaming'', PBool True)], s')
             else (Inl (Exc ValueError
                         [Lit ''No configuration found for LLM type: '', Fmt (PStr llm_type),
                          Lit '' and LM Studio not detected'']), s'))
      else (Inr merged_conf, s))"

text \<open>Lines 123-125.\<close>

definition add_max_retries :: "pydict \<Rightarrow> pydict" where
  "add_max_retries merged_conf =
     (if map_of merged_conf ''max_retries'' = None
      then dict_set ''max_retries'' (PInt 3) merged_conf
      else merged_conf)"

text \<open>Lines 127-135.\<close>

definition handle_verify_ssl :: "pydict \<Rightarrow> pydict" where
  "handle_verify_ssl merged_conf =
     (let verify_ssl = (case map_of merged_conf ''verify_ssl'' of None \<Rightarrow> PBool True | Some v \<Rightarrow> v);
          popped = dict_del ''verify_ssl'' merged_conf
      in if \<not> truthy verify_ssl
         then dict_set ''http_async_client'' (PHttpAsyncClient False)
                (dict_set ''http_client'' (PHttpClient False) popped)
         else popped)"

text \<open>Lines 156-165: the fallback branch that builds a \<open>ChatOpenAI\<close>.\<close>

definition openai_fallback :: "world \<Rightarrow> pydict \<Rightarrow> state \<Rightarrow> (pyexc + client) \<times> state" where
  "openai_fallback w merged_conf s =
     (let base_url = (case map_of merged_conf ''base_url'' of None \<Rightarrow> PNone | Some v \<Rightarrow> v)
      in case (if truthy base_url then (Inr base_url, s)
               else (case detect_lmstudio_base_url w s of
                       (Inl e, s') \<Rightarrow> (Inl e, s')
                     | (Inr found, s') \<Rightarrow> (Inr (str_opt_val found), s'))) of
           (Inl e, s') \<Rightarrow> (Inl e, s')
         | (Inr lmstudio_base, s') \<Rightarrow>
             if truthy lmstudio_base
             then construct ChatOpenAI
                    (dict_setdefault ''streaming'' (PBool True)
                      (dict_setdefault ''api_key'' (PStr ''lm-studio'')
                        (dict_set ''api_base'' lmstudio_base merged_conf))) s'
             else construct ChatOpenAI merged_conf s')"

text \<open>Lines 137-165: the choice of the provider.\<close>

definition dispatch_provider :: "world \<Rightarrow> string \<Rightarrow> pydict \<Rightarrow> state \<Rightarrow> (pyexc + client) \<times> state" where
  "dispatch_provider w llm_type merged_conf s =
     (if map_of merged_conf ''azure_endpoint'' \<noteq> None \<or> getenv_truthy w ''AZURE_OPENAI_ENDPOINT''
      then construct AzureChatOpenAI merged_conf s
      else case (case map_of merged_conf ''base_url'' of
                   None \<Rightarrow> Inr False
                 | Some base_url \<Rightarrow> py_contains ''dashscope.'' base_url) of
             Inl e \<Rightarrow> (Inl e, s)
           | Inr True \<Rightarrow>
               if llm_type = ''reasoning''
               then construct ChatDashscope
                      (dict_set ''extra_body'' (PDict [(''enable_thinking'', PBool True)]) merged_conf) s
               else construct ChatDashscope
                      (dict_set ''extra_body'' (PDict [(''enable_thinking'', PBool False)]) merged_conf) s
           | Inr False \<Rightarrow>
               if llm_type = ''reasoning''
               then construct ChatDeepSeek
                      (dict_set ''api_base''
                         (case map_of merged_conf ''base_url'' of None \<Rightarrow> PNone | Some v \<Rightarrow> v)
                         (dict_del ''base_url'' merged_conf)) s
               else openai_fallback w merged_conf s)"

text \<open>\<open>_create_llm_use_conf\<close> (lines 91-165).\<close>

definition create_llm_use_conf :: "world \<Rightarrow> string \<Rightarrow> pyval \<Rightarrow> state \<Rightarrow> (pyexc + client) \<times> state" where
  "create_llm_use_conf w llm_type conf s =
     (case merge_llm_conf w llm_type conf of
        Inl e \<Rightarrow> (Inl e, s)
      | Inr merged_conf \<Rightarrow>
          (case lmstudio_fallback w llm_type merged_conf s of
             (Inl e, s') \<Rightarrow> (Inl e, s')
           | (Inr merged_conf', s') \<Rightarrow>
               dispatch_provider w llm_type (handle_verify_ssl (add_max_retries merged_conf')) s'))"

text \<open>
  The constructor call that \<open>_create_llm_use_conf\<close> makes, before the constructor runs:
  the class and the keyword arguments of \<open>Cls(**merged_conf)\<close>. The three definitions
  below follow lines 156-165, 137-165 and 91-165 as \<open>openai_fallback\<close>,
  \<open>dispatch_provider\<close> and \<open>create_llm_use_conf\<close> do, and stop where those call the
  constructor. What the factory passes to a constructor is stated on them, so that it does
  not depend on whether the constructor accepts its options.
\<close>

definition openai_fallback_call ::
  "world \<Rightarrow> pydict \<Rightarrow> state \<Rightarrow> (pyexc + provider \<times> pydict) \<times> state" where
  "openai_fallback_call w merged_conf s =
     (let base_url = (case map_of merged_conf ''base_url'' of None \<Rightarrow> PNone | Some v \<Rightarrow> v)
      in case (if truthy base_url then (Inr base_url, s)
               else (case detect_lmstudio_base_url w s of
                       (Inl e, s') \<Rightarrow> (Inl e, s')
                     | (Inr found, s') \<Rightarrow> (Inr (str_opt_val found), s'))) of
           (Inl e, s') \<Rightarrow> (Inl e, s')
         | (Inr lmstudio_base, s') \<Rightarrow>
             if truthy lmstudio_base
             then (Inr (ChatOpenAI,
                        dict_setdefault ''streaming'' (PBool True)
                          (dict_setdefault ''api_key'' (PStr ''lm-studio'')
                            (dict_set ''api_base'' lmstudio_base merged_conf))), s')
             else (Inr (ChatOpenAI, merged_conf), s'))"

definition provider_call ::
  "world \<Rightarrow> string \<Rightarrow> pydict \<Rightarrow> state \<Rightarrow> (pyexc + provider \<times> pydict) \<times> state" where
  "provider_call w llm_type merged_conf s =
     (if map_of merged_conf ''azure_endpoint'' \<noteq> None \<or> getenv_truthy w ''AZURE_OPENAI_ENDPOINT''
      then (Inr (AzureChatOpenAI, merged_conf), s)
      else case (case map_of merged_conf ''base_url'' of
                   None \<Rightarrow> Inr False
                 | Some base_url \<Rightarrow> py_contains ''dashscope.'' base_url) of
             Inl e \<Rightarrow> (Inl e, s)
           | Inr True \<Rightarrow>
               if llm_type = ''reasoning''
               then (Inr (ChatDashscope,
                          dict_set ''extra_body'' (PDict [(''enable_thinking'', PBool True)]) merged_conf), s)
               else (Inr (ChatDashscope,
                          dict_set ''extra_body'' (PDict [(''enable_thinking'', PBool False)]) merged_conf), s)
           | Inr False \<Rightarrow>
               if llm_type = ''reasoning''
               then (Inr (ChatDeepSeek,
                          dict_set ''api_base''
                            (case map_of merged_conf ''base_url'' of None \<Rightarrow> PNone | Some v \<Rightarrow> v)
                            (dict_del ''base_url'' merged_conf)), s)
               else openai_fallback_call w merged_conf s)"

definition create_llm_call ::
  "world \<Rightarrow> string \<Rightarrow> pyval \<Rightarrow> state \<Rightarrow> (pyexc + provider \<times> pydict) \<times> state" where
  "create_llm_call w llm_type conf s =
     (case merge_llm_conf w llm_type conf of
        Inl e \<Rightarrow> (Inl e, s)
      | Inr merged_conf \<Rightarrow>
          (case lmstudio_fallback w llm_type merged_conf s of
             (Inl e, s') \<Rightarrow> (Inl e, s')
           | (Inr merged_conf', s') \<Rightarrow>
               provider_call w llm_type (handle_verify_ssl (add_max_retries merged_conf')) s'))"

text \<open>The constructor runs on the arguments of the call, when there is a call.\<close>

definition then_construct ::
  "(pyexc + provider \<times> pydict) \<times> state \<Rightarrow> (pyexc + client) \<times> state" where
  "then_construct r =
     (case r of (Inl e, s') \<Rightarrow> (Inl e, s') | (Inr (p, kw), s') \<Rightarrow> construct p kw s')"

text \<open>\<open>get_llm_by_type\<close> (lines 168-178).\<close>

definition get_llm_by_type :: "world \<Rightarrow> string \<Rightarrow> state \<Rightarrow> (pyexc + client) \<times> state" where
  "get_llm_by_type w llm_type s =
     (case map_of (llm_cache s) llm_type of
        Some llm \<Rightarrow> (Inr llm, s)
      | None \<Rightarrow>
          (case load_yaml_config w of
             Inl e \<Rightarrow> (Inl e, s)
           | Inr conf \<Rightarrow>
               (case create_llm_use_conf w llm_type conf s of
                  (Inl e, s') \<Rightarrow> (Inl e, s')
                | (Inr llm, s') \<Rightarrow>
                    (Inr llm, s'\<lparr>llm_cache := dict_set llm_type llm (llm_cache s')\<rparr>))))"

text \<open>
  Modelled from the spec: the members of \<open>LLMType\<close>, which \<open>src/config/agents.py\<close>
  declares and \<open>get_args(LLMType)\<close> enumerates. The spec's data model gives the roles as
  reasoning, basic, vision, code.
\<close>

definition LLMType_args :: "string list" where
  "LLMType_args = [''reasoning'', ''basic'', ''vision'', ''code'']"

text \<open>\<open>configured_models.setdefault(llm_type, []).append(model_name)\<close> (line 208).\<close>

definition append_model ::
  "string \<Rightarrow> pyval \<Rightarrow> (string \<times> pyval list) list \<Rightarrow> (string \<times> pyval list) list" where
  "append_model llm_type model_name configured_models =
     (case map_of configured_models llm_type of
        None \<Rightarrow> dict_set llm_type [model_name] configured_models
      | Some names \<Rightarrow> dict_set llm_type (names @ [model_name]) configured_models)"

text \<open>
  \<open>get_configured_llm_models\<close>, lines 194-208: the loop over the roles. Unpacking
  \<open>**yaml_conf\<close> raises \<open>TypeError\<close> when \<open>yaml_conf\<close> is not a mapping.
\<close>

fun configured_models_loop ::
  "world \<Rightarrow> pyval \<Rightarrow> string list \<Rightarrow> (string \<times> pyval list) list
     \<Rightarrow> pyexc + (string \<times> pyval list) list" where
  "configured_models_loop w conf [] configured_models = Inr configured_models"
| "configured_models_loop w conf (llm_type # rest) configured_models =
     (let config_key = (case map_of get_llm_type_config_keys llm_type of None \<Rightarrow> [] | Some k \<Rightarrow> k)
      in case (if config_key \<noteq> [] then py_get conf config_key (PDict []) else Inr (PDict [])) of
           Inl e \<Rightarrow> Inl e
         | Inr (PDict yaml_conf) \<Rightarrow>
             (let env_conf = get_env_llm_conf w llm_type;
                  merged_conf = dict_update yaml_conf env_conf;
                  model_name = (case map_of merged_conf ''model'' of None \<Rightarrow> PNone | Some v \<Rightarrow> v)
              in if truthy model_name
                 then configured_models_loop w conf rest
                        (append_model llm_type model_name configured_models)
                 else configured_models_loop w conf rest configured_models)
         | Inr v \<Rightarrow> Inl (Exc TypeError []))"

text \<open>Lines 189-210: the body of the \<open>try\<close>.\<close>

definition configured_models_body :: "world \<Rightarrow> pyexc + (string \<times> pyval list) list" where
  "configured_models_body w =
     (case load_yaml_config w of
        Inl e \<Rightarrow> Inl e
      | Inr conf \<Rightarrow> configured_models_loop w conf LLMType_args [])"

text \<open>
  A line written by \<open>print\<close>: the literal text of the f-string and the exception
  formatted after it.
\<close>

type_synonym printed = "string \<times> pyexc"

text \<open>
  \<open>get_configured_llm_models\<close> (lines 181-215): the result or the exception that leaves
  the function, and what was printed. \<open>except Exception\<close> handles every exception of the
  body.
\<close>

definition get_configured_llm_models ::
  "world \<Rightarrow> (pyexc + (string \<times> pyval list) list) \<times> printed list" where
  "get_configured_llm_models w =
     (case configured_models_body w of
        Inr configured_models \<Rightarrow> (Inr configured_models, [])
      | Inl e \<Rightarrow> (Inr [], [(''Warning: Failed to load LLM configuration: '', e)]))"

section \<open>Notions used to state the properties\<close>

text \<open>
  The number of chat models constructed by the calls for the role \<open>r\<close> in a sequence of
  calls of \<open>get_llm_by_type\<close>, each in the environment of its moment: the growth of
  \<open>next_oid\<close> over those calls.
\<close>

fun constructed_for :: "string \<Rightarrow> (world \<times> string) list \<Rightarrow> state \<Rightarrow> nat" where
  "constructed_for r [] s = 0"
| "constructed_for r (c # cs) s =
     (let s' = snd (get_llm_by_type (fst c) (snd c) s)
      in (if snd c = r then next_oid s' - next_oid s else 0) + constructed_for r cs s')"

text \<open>
  The request log after the first \<open>n\<close> of the candidates \<open>hosts\<close> have been probed from
  the state \<open>s\<close>, and whether candidate \<open>i\<close> answers its probe with status 200.
\<close>

definition log_after :: "state \<Rightarrow> string list \<Rightarrow> nat \<Rightarrow> string list" where
  "log_after s hosts n = requests s @ map models_url (take n hosts)"

definition answers_ok :: "world \<Rightarrow> state \<Rightarrow> string list \<Rightarrow> nat \<Rightarrow> bool" where
  "answers_ok w s hosts i = (httpx_get w (log_after s hosts i) (models_url (hosts ! i)) = Inr 200)"

text \<open>
  A loopback base URL on port 1234, in the spec's sense: the host is \<open>localhost\<close> or an
  address of the block 127.0.0.0/8.
\<close>

definition is_loopback_url :: "string \<Rightarrow> bool" where
  "is_loopback_url u =
     (u = ''http://localhost:1234'' \<or> (startswith u ''http://127.'' \<and> startswith (rev u) (rev '':1234'')))"

text \<open>
  The model name that the merge of line 107 configures for a role: the value of \<open>model\<close>
  when the merge has one and it is truthy.
\<close>

definition configured_model :: "world \<Rightarrow> pyval \<Rightarrow> string \<Rightarrow> pyval option" where
  "configured_model w conf r =
     (case merge_llm_conf w r conf of
        Inl e \<Rightarrow> None
      | Inr merged \<Rightarrow>
          (case map_of merged ''model'' of
             None \<Rightarrow> None
           | Some v \<Rightarrow> if truthy v then Some v else None))"

section \<open>Example inputs\<close>

text \<open>
  A network whose answers do not depend on the history: a status code for the listed
  URLs, a connection error for every other URL.
\<close>

definition static_net :: "(string \<times> int) list \<Rightarrow> string list \<Rightarrow> string \<Rightarrow> pyexc + int" where
  "static_net answers log url =
     (case map_of answers url of
        None \<Rightarrow> Inl (Exc ExternalError [Lit ''ConnectError''])
      | Some status_code \<Rightarrow> Inr status_code)"

text \<open>The spec's example: YAML \<open>{api_key: "a"}\<close> and \<open>BASIC_MODEL__api_key=b\<close>.\<close>

definition yaml_api_key_a :: pyval where
  "yaml_api_key_a = PDict [(''BASIC_MODEL'', PDict [(''api_key'', PStr ''a'')])]"

definition world_api_key_b :: world where
  "world_api_key_b =
     \<lparr>environ = [(''PATH'', ''/usr/bin''), (''BASIC_MODEL__api_key'', ''b'')],
      load_yaml_config = Inr yaml_api_key_a,
      httpx_get = static_net []\<rparr>"

text \<open>
  A LAN host is configured and does not answer, \<open>localhost\<close> answers 503 and
  \<open>127.0.0.1\<close> answers 200.
\<close>

definition world_lan_host :: world where
  "world_lan_host =
     \<lparr>environ = [(''LMSTUDIO_LAN_HOST'', ''10.0.0.7'')],
      load_yaml_config = Inr (PDict []),
      httpx_get = static_net [(''http://localhost:1234/v1/models'', 503),
                              (''http://127.0.0.1:1234/v1/models'', 200)]\<rparr>"

text \<open>No environment variable, an empty configuration file, no server reachable.\<close>

definition world_bare :: world where
  "world_bare = \<lparr>environ = [], load_yaml_config = Inr (PDict []), httpx_get = static_net []\<rparr>"

text \<open>As \<open>world_bare\<close>, with an LM Studio server answering on \<open>localhost\<close>.\<close>

definition world_lmstudio :: world where
  "world_lmstudio =
     \<lparr>environ = [(''HOME'', ''/root'')],
      load_yaml_config = Inr (PDict []),
      httpx_get = static_net [(''http://localhost:1234/v1/models'', 200)]\<rparr>"

text \<open>The spec's dashscope example, for the roles \<open>reasoning\<close> and \<open>basic\<close>.\<close>

definition yaml_dashscope :: pyval where
  "yaml_dashscope =
     PDict [(''REASONING_MODEL'', PDict [(''base_url'', PStr ''https://dashscope.example/v1'')]),
            (''BASIC_MODEL'', PDict [(''base_url'', PStr ''https://dashscope.example/v1'')])]"

text \<open>The spec's example of a reasoning role with a plain \<open>base_url\<close>.\<close>

definition yaml_reasoning_api :: pyval where
  "yaml_reasoning_api =
     PDict [(''REASONING_MODEL'',
             PDict [(''model'', PStr ''deepseek-reasoner''), (''api_key'', PStr ''sk-1''),
                    (''base_url'', PStr ''https://api.example.com'')])]"

text \<open>A reasoning role configured with a model name only.\<close>

definition yaml_reasoning_model :: pyval where
  "yaml_reasoning_model =
     PDict [(''REASONING_MODEL'', PDict [(''model'', PStr ''deepseek-reasoner'')])]"

text \<open>The same reasoning configuration where \<open>AZURE_OPENAI_ENDPOINT\<close> is set.\<close>

definition world_azure_env :: world where
  "world_azure_env =
     \<lparr>environ = [(''AZURE_OPENAI_ENDPOINT'', ''https://az.example.com'')],
      load_yaml_config = Inr yaml_reasoning_api,
      httpx_get = static_net []\<rparr>"

text \<open>A basic role that switches certificate verification off.\<close>

definition yaml_no_verify :: pyval where
  "yaml_no_verify =
     PDict [(''BASIC_MODEL'',
             PDict [(''model'', PStr ''qwen''), (''base_url'', PStr ''https://llm.example.com/v1''),
                    (''verify_ssl'', PBool False)])]"

text \<open>A configuration file whose \<open>BASIC_MODEL\<close> section is a string.\<close>

definition yaml_basic_string :: pyval where
  "yaml_basic_string = PDict [(''BASIC_MODEL'', PStr ''gpt-4o'')]"

text \<open>A configured \<open>basic\<close> role, the client built for it and the state that caches it.\<close>

definition yaml_basic :: pyval where
  "yaml_basic =
     PDict [(''BASIC_MODEL'', PDict [(''model'', PStr ''gpt-4o''),
                                     (''base_url'', PStr ''https://api.example.com/v1'')])]"

definition world_basic :: world where
  "world_basic =
     \<lparr>environ = [(''BASIC_MODEL__api_key'', ''sk-1'')],
      load_yaml_config = Inr yaml_basic,
      httpx_get = static_net []\<rparr>"

definition client_basic :: client where
  "client_basic =
     \<lparr>oid = 0, cls = ChatOpenAI,
      kwargs = [(''model'', PStr ''gpt-4o''), (''base_url'', PStr ''https://api.example.com/v1''),
                (''api_key'', PStr ''sk-1''), (''max_retries'', PInt 3),
                (''api_base'', PStr ''https://api.example.com/v1''), (''streaming'', PBool True)]\<rparr>"

definition state_basic_cached :: state where
  "state_basic_cached = \<lparr>llm_cache = [(''basic'', client_basic)], next_oid = 1, requests = []\<rparr>"

text \<open>
  Model names from the file and from the environment; the \<open>reasoning\<close> model name is
  the empty string.
\<close>

definition world_models :: world where
  "world_models =
     \<lparr>environ = [(''VISION_MODEL__MODEL'', ''qwen-vl''), (''BASIC_MODEL__api_key'', ''k'')],
      load_yaml_config =
        Inr (PDict [(''BASIC_MODEL'', PDict [(''model'', PStr ''gpt-4o'')]),
                    (''REASONING_MODEL'', PDict [(''model'', PStr [])])]),
      httpx_get = static_net []\<rparr>"

text \<open>The loader raises; the \<open>BASIC_MODEL\<close> section is not a mapping.\<close>

definition world_yaml_error :: world where
  "world_yaml_error =
     \<lparr>environ = [],
      load_yaml_config = Inl (Exc ExternalError [Lit ''YAMLError'']),
      httpx_get = static_net []\<rparr>"

definition world_bad_section :: world where
  "world_bad_section =
     \<lparr>environ = [], load_yaml_config = Inr yaml_basic_string, httpx_get = static_net []\<rparr>"

section \<open>Dictionaries\<close>

lemma map_of_dict_set: "map_of (dict_set k v d) k' = (if k' = k then Some v else map_of d k')"
  by (induction d) auto

lemma map_of_dict_del: "map_of (dict_del k d) k' = (if k' = k then None else map_of d k')"
  unfolding dict_del_def by (induction d) auto

lemma map_of_dict_setdefault:
  "map_of (dict_setdefault k v d) k' =
     (if k' = k \<and> map_of d k = None then Some v else map_of d k')"
  by (auto simp: dict_setdefault_def map_of_dict_set split: option.splits)

lemma keys_dict_set: "fst ` set (dict_set k v d) = insert k (fst ` set d)"
  by (induction d) auto

lemma distinct_dict_set: "distinct (map fst d) \<Longrightarrow> distinct (map fst (dict_set k v d))"
  by (induction d) (auto simp: keys_dict_set)

text \<open>
  The merge \<open>{**d, **e}\<close> looks a key up in \<open>e\<close> first, when the keys of \<open>e\<close> are
  distinct (they are the keys of a dictionary).
\<close>

lemma map_of_dict_update:
  "distinct (map fst e) \<Longrightarrow>
   map_of (dict_update d e) k = (case map_of e k of None \<Rightarrow> map_of d k | Some v \<Rightarrow> Some v)"
proof (induction e arbitrary: d)
  case Nil
  then show ?case by simp
next
  case (Cons p e)
  obtain k' v' where p: "p = (k', v')" by (cases p)
  from Cons.prems p have notin: "map_of e k' = None" and dist: "distinct (map fst e)"
    by (auto simp: map_of_eq_None_iff)
  show ?case
    using Cons.IH [OF dist, of "dict_set k' v' d"] p notin
    by (auto simp: map_of_dict_set split: option.splits)
qed

lemma distinct_env_conf_loop:
  "distinct (map fst conf) \<Longrightarrow> distinct (map fst (env_conf_loop prefix items conf))"
  by (induction items arbitrary: conf) (auto simp: distinct_dict_set)

lemma distinct_get_env_llm_conf: "distinct (map fst (get_env_llm_conf w llm_type))"
  unfolding get_env_llm_conf_def by (rule distinct_env_conf_loop) simp

lemmas env_eval = get_env_llm_conf_def upper_def upper_char_def lower_def lower_char_def

lemmas lookup_eval = lookup_llm_conf_def get_llm_type_config_keys_def

section \<open>The merge of YAML and environment\<close>

text \<open>
  C2. For every role whose YAML sub-section is a mapping (or absent), the merged
  configuration of line 107 gives each key the value of the environment overrides when
  they have the key, and the value of the YAML sub-mapping otherwise: the environment wins
  on a key of both sides, and a key of one side only keeps its value.
\<close>

theorem env_precedence_in_merge:
  assumes "lookup_llm_conf llm_type conf = Inr llm_conf"
  shows "\<exists>merged. merge_llm_conf w llm_type conf = Inr merged \<and>
           (\<forall>k. map_of merged k =
                  (case map_of (get_env_llm_conf w llm_type) k of
                     Some v \<Rightarrow> Some v
                   | None \<Rightarrow> map_of llm_conf k))"
  using assms
  by (simp add: merge_llm_conf_def map_of_dict_update [OF distinct_get_env_llm_conf]
        split: option.splits)

text \<open>
  The spec's example: with YAML \<open>{api_key: "a"}\<close> and \<open>BASIC_MODEL__api_key=b\<close> the merged
  \<open>api_key\<close> is \<open>"b"\<close>.
\<close>

theorem env_precedence_in_merge_witness:
  "lookup_llm_conf ''basic'' yaml_api_key_a = Inr [(''api_key'', PStr ''a'')] \<and>
   (\<exists>merged. merge_llm_conf world_api_key_b ''basic'' yaml_api_key_a = Inr merged \<and>
      map_of merged ''api_key'' = Some (PStr ''b''))"
proof -
  have h: "lookup_llm_conf ''basic'' yaml_api_key_a = Inr [(''api_key'', PStr ''a'')]"
    by (simp add: lookup_eval yaml_api_key_a_def)
  have e: "get_env_llm_conf world_api_key_b ''basic'' = [(''api_key'', PStr ''b'')]"
    by (simp add: env_eval world_api_key_b_def)
  from env_precedence_in_merge [OF h, of world_api_key_b] obtain merged where
    m: "merge_llm_conf world_api_key_b ''basic'' yaml_api_key_a = Inr merged"
    and k: "\<forall>k. map_of merged k =
                 (case map_of (get_env_llm_conf world_api_key_b ''basic'') k of
                    Some v \<Rightarrow> Some v
                  | None \<Rightarrow> map_of [(''api_key'', PStr ''a'')] k)"
    by blast
  from k e have "map_of merged ''api_key'' = Some (PStr ''b'')" by simp
  with h m show ?thesis by blast
qed

section \<open>The endpoint prober\<close>

lemma probe_hosts_returns: "\<exists>r s'. probe_hosts w hosts s = (Inr r, s')"
  by (induction hosts arbitrary: s) (auto simp: Let_def split: sum.splits)

lemma probe_hosts_nonempty: "probe_hosts w hosts s = (Inr (Some u), s') \<Longrightarrow> u \<noteq> []"
  by (induction hosts arbitrary: s) (auto simp: Let_def split: sum.splits if_splits)

lemma probe_hosts_frame:
  "probe_hosts w hosts s = (r, s') \<Longrightarrow> llm_cache s' = llm_cache s \<and> next_oid s' = next_oid s"
proof (induction hosts arbitrary: s)
  case Nil
  then show ?case by simp
next
  case (Cons host hosts)
  let ?s1 = "s\<lparr>requests := requests s @ [models_url host]\<rparr>"
  from Cons.prems
  have "(r, s') = (Inr (Some (host @ ''/v1'')), ?s1) \<or> probe_hosts w hosts ?s1 = (r, s')"
    by (auto simp: Let_def split: sum.splits if_splits)
  then show ?case
  proof
    assume "(r, s') = (Inr (Some (host @ ''/v1'')), ?s1)"
    then show ?thesis by auto
  next
    assume "probe_hosts w hosts ?s1 = (r, s')"
    from Cons.IH [OF this] show ?thesis by simp
  qed
qed

lemma log_after_Cons:
  "log_after s (host # hosts) (Suc n) =
     log_after (s\<lparr>requests := requests s @ [models_url host]\<rparr>) hosts n"
  by (simp add: log_after_def)

lemma answers_ok_Cons:
  "answers_ok w s (host # hosts) (Suc i) =
     answers_ok w (s\<lparr>requests := requests s @ [models_url host]\<rparr>) hosts i"
  by (simp add: answers_ok_def log_after_def)

lemma answers_ok_0:
  "answers_ok w s (host # hosts) 0 = (httpx_get w (requests s) (models_url host) = Inr 200)"
  by (simp add: answers_ok_def log_after_def)

text \<open>
  The loop either probes every candidate, none of which answers 200, and returns \<open>None\<close>;
  or it stops at the first candidate that answers 200 and returns that candidate's URL.
\<close>

lemma probe_hosts_spec:
  "(probe_hosts w hosts s = (Inr None, s\<lparr>requests := log_after s hosts (length hosts)\<rparr>) \<and>
      (\<forall>i<length hosts. \<not> answers_ok w s hosts i)) \<or>
   (\<exists>i<length hosts.
      probe_hosts w hosts s =
        (Inr (Some (hosts ! i @ ''/v1'')), s\<lparr>requests := log_after s hosts (Suc i)\<rparr>) \<and>
      answers_ok w s hosts i \<and> (\<forall>j<i. \<not> answers_ok w s hosts j))"
proof (induction hosts arbitrary: s)
  case Nil
  show ?case by (simp add: log_after_def)
next
  case (Cons host hosts)
  let ?s1 = "s\<lparr>requests := requests s @ [models_url host]\<rparr>"
  have upd: "\<And>l. ?s1\<lparr>requests := l\<rparr> = s\<lparr>requests := l\<rparr>" by simp
  show ?case
  proof (cases "httpx_get w (requests s) (models_url host) = Inr 200")
    case True
    then have "probe_hosts w (host # hosts) s = (Inr (Some (host @ ''/v1'')), ?s1)"
      by (simp add: Let_def)
    moreover have "log_after s (host # hosts) (Suc 0) = requests s @ [models_url host]"
      by (simp add: log_after_def)
    ultimately have "probe_hosts w (host # hosts) s =
        (Inr (Some ((host # hosts) ! 0 @ ''/v1'')),
         s\<lparr>requests := log_after s (host # hosts) (Suc 0)\<rparr>)
      \<and> answers_ok w s (host # hosts) 0 \<and> (\<forall>j<0. \<not> answers_ok w s (host # hosts) j)"
      using True by (simp add: answers_ok_0)
    then show ?thesis by blast
  next
    case False
    then have step: "probe_hosts w (host # hosts) s = probe_hosts w hosts ?s1"
      by (auto simp: Let_def split: sum.splits)
    have no0: "\<not> answers_ok w s (host # hosts) 0"
      using False by (simp add: answers_ok_0)
    from Cons.IH [of ?s1] show ?thesis
    proof
      assume a: "probe_hosts w hosts ?s1 =
          (Inr None, ?s1\<lparr>requests := log_after ?s1 hosts (length hosts)\<rparr>) \<and>
        (\<forall>i<length hosts. \<not> answers_ok w ?s1 hosts i)"
      have "\<forall>i<length (host # hosts). \<not> answers_ok w s (host # hosts) i"
      proof (intro allI impI)
        fix i assume "i < length (host # hosts)"
        then show "\<not> answers_ok w s (host # hosts) i"
          using a no0 by (cases i) (auto simp: answers_ok_Cons)
      qed
      moreover have "probe_hosts w (host # hosts) s =
          (Inr None, s\<lparr>requests := log_after s (host # hosts) (length (host # hosts))\<rparr>)"
        using a step by (simp add: log_after_Cons upd)
      ultimately show ?thesis by blast
    next
      assume "\<exists>i<length hosts.
        probe_hosts w hosts ?s1 =
          (Inr (Some (hosts ! i @ ''/v1'')), ?s1\<lparr>requests := log_after ?s1 hosts (Suc i)\<rparr>) \<and>
        answers_ok w ?s1 hosts i \<and> (\<forall>j<i. \<not> answers_ok w ?s1 hosts j)"
      then obtain i where i: "i < length hosts"
        and r: "probe_hosts w hosts ?s1 =
          (Inr (Some (hosts ! i @ ''/v1'')), ?s1\<lparr>requests := log_after ?s1 hosts (Suc i)\<rparr>)"
        and ok: "answers_ok w ?s1 hosts i"
        and before: "\<forall>j<i. \<not> answers_ok w ?s1 hosts j"
        by blast
      have "\<forall>j<Suc i. \<not> answers_ok w s (host # hosts) j"
      proof (intro allI impI)
        fix j assume "j < Suc i"
        then show "\<not> answers_ok w s (host # hosts) j"
          using before no0 by (cases j) (auto simp: answers_ok_Cons)
      qed
      moreover have "probe_hosts w (host # hosts) s =
          (Inr (Some ((host # hosts) ! Suc i @ ''/v1'')),
           s\<lparr>requests := log_after s (host # hosts) (Suc (Suc i))\<rparr>)"
        using r step by (simp add: log_after_Cons upd)
      moreover have "answers_ok w s (host # hosts) (Suc i)"
        using ok by (simp add: answers_ok_Cons)
      moreover have "Suc i < length (host # hosts)" using i by simp
      ultimately show ?thesis by blast
    qed
  qed
qed

lemma detect_returns: "\<exists>found s'. detect_lmstudio_base_url w s = (Inr found, s')"
  unfolding detect_lmstudio_base_url_def by (rule probe_hosts_returns)

lemma detect_nonempty: "detect_lmstudio_base_url w s = (Inr (Some u), s') \<Longrightarrow> u \<noteq> []"
  unfolding detect_lmstudio_base_url_def by (rule probe_hosts_nonempty)

lemma detect_frame:
  "detect_lmstudio_base_url w s = (r, s') \<Longrightarrow>
     llm_cache s' = llm_cache s \<and> next_oid s' = next_oid s"
  unfolding detect_lmstudio_base_url_def by (rule probe_hosts_frame)

text \<open>
  C4, as the claim states its candidate list: the fixed candidates are loopback
  addresses. The third fixed candidate of the code is the LAN address 192.168.2.65.
\<close>

theorem fixed_candidates_not_all_loopback:
  "candidate_hosts world_bare =
     [''http://localhost:1234'', ''http://127.0.0.1:1234'', ''http://192.168.2.65:1234''] \<and>
   is_loopback_url ''http://localhost:1234'' \<and>
   is_loopback_url ''http://127.0.0.1:1234'' \<and>
   \<not> is_loopback_url ''http://192.168.2.65:1234''"
  by (simp add: candidate_hosts_def getenv_def world_bare_def is_loopback_url_def)

text \<open>
  C4, amended. \<open>_detect_lmstudio_base_url\<close> never raises. Its candidates are the host of
  \<open>LMSTUDIO_LAN_HOST\<close>, when that variable is set and not empty, followed by the three fixed
  hosts \<open>localhost\<close>, \<open>127.0.0.1\<close> and \<open>192.168.2.65\<close>, all on port 1234. It sends
  \<open>GET <candidate>/v1/models\<close> to the candidates in order. Either some candidate answers
  200: then it returns \<open><candidate>/v1\<close> for the first such candidate and has sent no
  request after that one. Or no candidate answers 200 (each raised or gave another
  status): then every candidate was probed and it returns \<open>None\<close>.
\<close>

theorem detect_lmstudio_base_url_contract:
  "candidate_hosts w =
     (case getenv w ''LMSTUDIO_LAN_HOST'' of
        None \<Rightarrow> []
      | Some lan_host \<Rightarrow> if lan_host = [] then [] else [''http://'' @ lan_host @ '':1234''])
     @ [''http://localhost:1234'', ''http://127.0.0.1:1234'', ''http://192.168.2.65:1234''] \<and>
   ((detect_lmstudio_base_url w s =
       (Inr None, s\<lparr>requests := log_after s (candidate_hosts w) (length (candidate_hosts w))\<rparr>) \<and>
     (\<forall>i<length (candidate_hosts w). \<not> answers_ok w s (candidate_hosts w) i)) \<or>
    (\<exists>i<length (candidate_hosts w).
       detect_lmstudio_base_url w s =
         (Inr (Some (candidate_hosts w ! i @ ''/v1'')),
          s\<lparr>requests := log_after s (candidate_hosts w) (Suc i)\<rparr>) \<and>
       answers_ok w s (candidate_hosts w) i \<and>
       (\<forall>j<i. \<not> answers_ok w s (candidate_hosts w) j)))"
proof -
  have "candidate_hosts w =
     (case getenv w ''LMSTUDIO_LAN_HOST'' of
        None \<Rightarrow> []
      | Some lan_host \<Rightarrow> if lan_host = [] then [] else [''http://'' @ lan_host @ '':1234''])
     @ [''http://localhost:1234'', ''http://127.0.0.1:1234'', ''http://192.168.2.65:1234'']"
    by (simp add: candidate_hosts_def split: option.splits)
  then show ?thesis
    using probe_hosts_spec [of w "candidate_hosts w" s]
    unfolding detect_lmstudio_base_url_def by blast
qed

text \<open>
  With a LAN host that does not answer, \<open>localhost\<close> answering 503 and \<open>127.0.0.1\<close>
  answering 200, the prober returns \<open>http://127.0.0.1:1234/v1\<close> after three requests; the
  fourth candidate is not probed.
\<close>

theorem detect_lmstudio_base_url_contract_witness:
  "candidate_hosts world_lan_host =
     [''http://10.0.0.7:1234'', ''http://localhost:1234'', ''http://127.0.0.1:1234'',
      ''http://192.168.2.65:1234''] \<and>
   detect_lmstudio_base_url world_lan_host init_state =
     (Inr (Some ''http://127.0.0.1:1234/v1''),
      init_state\<lparr>requests := [''http://10.0.0.7:1234/v1/models'',
                               ''http://localhost:1234/v1/models'',
                               ''http://127.0.0.1:1234/v1/models'']\<rparr>) \<and>
   answers_ok world_lan_host init_state (candidate_hosts world_lan_host) 2 \<and>
   \<not> answers_ok world_lan_host init_state (candidate_hosts world_lan_host) 0 \<and>
   \<not> answers_ok world_lan_host init_state (candidate_hosts world_lan_host) 1"
  using detect_lmstudio_base_url_contract [of world_lan_host init_state]
  by (simp add: candidate_hosts_def getenv_def world_lan_host_def detect_lmstudio_base_url_def
        models_url_def static_net_def init_state_def answers_ok_def log_after_def)

section \<open>Resolution of the configuration\<close>

lemma map_of_add_max_retries:
  "map_of (add_max_retries m) k =
     (if k = ''max_retries'' \<and> map_of m ''max_retries'' = None then Some (PInt 3) else map_of m k)"
  by (simp add: add_max_retries_def map_of_dict_set)

lemma lmstudio_fallback_nonempty:
  "merged_conf \<noteq> [] \<Longrightarrow> lmstudio_fallback w llm_type merged_conf s = (Inr merged_conf, s)"
  by (simp add: lmstudio_fallback_def)

lemmas detect_eval = candidate_hosts_def getenv_def detect_lmstudio_base_url_def
  models_url_def static_net_def init_state_def

text \<open>
  C3. For every role whose merged configuration (line 107) is empty, the resolution runs
  the endpoint prober. When the prober finds a base URL, the configuration that enters the
  injection of defaults, and from there the construction, is exactly
  \<open>{api_base: <url>, api_key: "lm-studio", streaming: True}\<close>. When the prober returns
  \<open>None\<close>, the resolution fails with the \<open>ValueError\<close> "No configuration found for LLM
  type: <role> and LM Studio not detected", the error the spec calls ConfigMissingError.
\<close>

theorem empty_configuration_fallback:
  assumes "merge_llm_conf w llm_type conf = Inr []"
  shows "\<exists>found s'. detect_lmstudio_base_url w s = (Inr found, s') \<and>
           (case found of
              Some url \<Rightarrow>
                lmstudio_fallback w llm_type [] s =
                  (Inr [(''api_base'', PStr url), (''api_key'', PStr ''lm-studio''),
                        (''streaming'', PBool True)], s') \<and>
                create_llm_use_conf w llm_type conf s =
                  dispatch_provider w llm_type
                    (handle_verify_ssl (add_max_retries
                       [(''api_base'', PStr url), (''api_key'', PStr ''lm-studio''),
                        (''streaming'', PBool True)])) s'
            | None \<Rightarrow>
                create_llm_use_conf w llm_type conf s =
                  (Inl (Exc ValueError
                         [Lit ''No configuration found for LLM type: '', Fmt (PStr llm_type),
                          Lit '' and LM Studio not detected'']), s'))"
proof -
  obtain found s' where d: "detect_lmstudio_base_url w s = (Inr found, s')"
    using detect_returns by blast
  show ?thesis
  proof (cases found)
    case None
    with d assms have "create_llm_use_conf w llm_type conf s =
        (Inl (Exc ValueError
               [Lit ''No configuration found for LLM type: '', Fmt (PStr llm_type),
                Lit '' and LM Studio not detected'']), s')"
      by (simp add: create_llm_use_conf_def lmstudio_fallback_def)
    with d None show ?thesis by simp
  next
    case (Some url)
    with d have "url \<noteq> []" using detect_nonempty by blast
    with d Some assms show ?thesis
      by (simp add: create_llm_use_conf_def lmstudio_fallback_def)
  qed
qed

text \<open>
  With empty YAML, empty environment and no reachable candidate, the resolution of
  \<open>vision\<close> fails after three probes; with a server on \<open>localhost\<close> the synthesized
  configuration carries its URL.
\<close>

theorem empty_configuration_fallback_witness:
  "merge_llm_conf world_bare ''vision'' (PDict []) = Inr [] \<and>
   create_llm_use_conf world_bare ''vision'' (PDict []) init_state =
     (Inl (Exc ValueError
            [Lit ''No configuration found for LLM type: '', Fmt (PStr ''vision''),
             Lit '' and LM Studio not detected'']),
      init_state\<lparr>requests := [''http://localhost:1234/v1/models'',
                               ''http://127.0.0.1:1234/v1/models'',
                               ''http://192.168.2.65:1234/v1/models'']\<rparr>) \<and>
   merge_llm_conf world_lmstudio ''vision'' (PDict []) = Inr [] \<and>
   lmstudio_fallback world_lmstudio ''vision'' [] init_state =
     (Inr [(''api_base'', PStr ''http://localhost:1234/v1''), (''api_key'', PStr ''lm-studio''),
           (''streaming'', PBool True)],
      init_state\<lparr>requests := [''http://localhost:1234/v1/models'']\<rparr>)"
proof -
  have m1: "merge_llm_conf world_bare ''vision'' (PDict []) = Inr []"
    by (simp add: merge_llm_conf_def lookup_eval env_eval world_bare_def)
  have d1: "detect_lmstudio_base_url world_bare init_state =
      (Inr None, init_state\<lparr>requests := [''http://localhost:1234/v1/models'',
                               ''http://127.0.0.1:1234/v1/models'',
                               ''http://192.168.2.65:1234/v1/models'']\<rparr>)"
    by (simp add: detect_eval world_bare_def)
  have m2: "merge_llm_conf world_lmstudio ''vision'' (PDict []) = Inr []"
    by (simp add: merge_llm_conf_def lookup_eval env_eval world_lmstudio_def)
  have d2: "detect_lmstudio_base_url world_lmstudio init_state =
      (Inr (Some ''http://localhost:1234/v1''),
       init_state\<lparr>requests := [''http://localhost:1234/v1/models'']\<rparr>)"
    by (simp add: detect_eval world_lmstudio_def)
  show ?thesis
    using empty_configuration_fallback [OF m1, of init_state]
      empty_configuration_fallback [OF m2, of init_state] m1 m2 d1 d2
    by simp
qed

section \<open>Provider dispatch\<close>

lemma map_of_handle_verify_ssl:
  "map_of (handle_verify_ssl m) k =
     (if k = ''verify_ssl'' then None
      else if \<not> truthy (case map_of m ''verify_ssl'' of None \<Rightarrow> PBool True | Some v \<Rightarrow> v)
              \<and> k = ''http_client'' then Some (PHttpClient False)
      else if \<not> truthy (case map_of m ''verify_ssl'' of None \<Rightarrow> PBool True | Some v \<Rightarrow> v)
              \<and> k = ''http_async_client'' then Some (PHttpAsyncClient False)
      else map_of m k)"
  by (simp add: handle_verify_ssl_def Let_def map_of_dict_set map_of_dict_del)

lemma map_of_prepared:
  "k \<noteq> ''max_retries'' \<Longrightarrow> k \<noteq> ''verify_ssl'' \<Longrightarrow> k \<noteq> ''http_client'' \<Longrightarrow>
   k \<noteq> ''http_async_client'' \<Longrightarrow>
   map_of (handle_verify_ssl (add_max_retries m)) k = map_of m k"
  by (simp add: map_of_handle_verify_ssl map_of_add_max_retries)

lemma dispatch_provider_keeps:
  assumes "dispatch_provider w llm_type m s = (Inr c, s')"
    and "k \<noteq> ''extra_body''" "k \<noteq> ''api_base''" "k \<noteq> ''base_url''"
    and "k \<noteq> ''api_key''" "k \<noteq> ''streaming''"
  shows "map_of (kwargs c) k = map_of m k"
  using assms
  by (auto simp: dispatch_provider_def openai_fallback_def construct_def Let_def
        map_of_dict_set map_of_dict_del map_of_dict_setdefault
        split: if_splits sum.splits option.splits prod.splits bool.splits)

lemma dispatch_provider_dashscope:
  assumes "map_of m ''azure_endpoint'' = None" "\<not> getenv_truthy w ''AZURE_OPENAI_ENDPOINT''"
    and "map_of m ''base_url'' = Some (PStr url)" "str_contains url ''dashscope.''"
  shows "dispatch_provider w llm_type m s =
           construct ChatDashscope
             (dict_set ''extra_body'' (PDict [(''enable_thinking'', PBool (llm_type = ''reasoning''))]) m) s"
  using assms by (simp add: dispatch_provider_def)

text \<open>
  The factory is the constructor call followed by the constructor: the two views of
  lines 91-165 agree.
\<close>

lemma openai_fallback_via_call:
  "openai_fallback w m s = then_construct (openai_fallback_call w m s)"
proof (cases "truthy (case map_of m ''base_url'' of None \<Rightarrow> PNone | Some v \<Rightarrow> v)")
  case True
  then show ?thesis
    by (simp add: openai_fallback_def openai_fallback_call_def then_construct_def Let_def)
next
  case False
  obtain found s1 where d: "detect_lmstudio_base_url w s = (Inr found, s1)"
    using detect_returns by blast
  with False show ?thesis
    by (simp add: openai_fallback_def openai_fallback_call_def then_construct_def Let_def)
qed

lemma dispatch_provider_via_call:
  "dispatch_provider w llm_type m s = then_construct (provider_call w llm_type m s)"
proof (cases "map_of m ''azure_endpoint'' \<noteq> None \<or> getenv_truthy w ''AZURE_OPENAI_ENDPOINT''")
  case True
  then show ?thesis
    by (simp add: dispatch_provider_def provider_call_def then_construct_def)
next
  case False
  show ?thesis
  proof (cases "case map_of m ''base_url'' of None \<Rightarrow> Inr False
                | Some base_url \<Rightarrow> py_contains ''dashscope.'' base_url")
    case (Inl e)
    with False show ?thesis
      by (simp add: dispatch_provider_def provider_call_def then_construct_def)
  next
    case (Inr b)
    with False show ?thesis
      by (cases b)
        (simp_all add: dispatch_provider_def provider_call_def openai_fallback_via_call,
         simp_all add: then_construct_def)
  qed
qed

lemma create_llm_use_conf_via_call:
  "create_llm_use_conf w llm_type conf s = then_construct (create_llm_call w llm_type conf s)"
proof (cases "merge_llm_conf w llm_type conf")
  case (Inl e)
  then show ?thesis
    by (simp add: create_llm_use_conf_def create_llm_call_def then_construct_def)
next
  case (Inr merged)
  obtain r s1 where f: "lmstudio_fallback w llm_type merged s = (r, s1)"
    by (cases "lmstudio_fallback w llm_type merged s")
  show ?thesis
  proof (cases r)
    case (Inl e)
    with Inr f show ?thesis
      by (simp add: create_llm_use_conf_def create_llm_call_def then_construct_def)
  next
    case (Inr m1)
    with \<open>merge_llm_conf w llm_type conf = Inr merged\<close> f show ?thesis
      by (simp add: create_llm_use_conf_def create_llm_call_def dispatch_provider_via_call)
  qed
qed

lemma create_llm_call_nonempty:
  assumes "merge_llm_conf w llm_type conf = Inr merged" "merged \<noteq> []"
  shows "create_llm_call w llm_type conf s =
           provider_call w llm_type (handle_verify_ssl (add_max_retries merged)) s"
  using assms by (simp add: create_llm_call_def lmstudio_fallback_def)

lemma provider_call_reasoning:
  assumes "map_of m ''azure_endpoint'' = None" "\<not> getenv_truthy w ''AZURE_OPENAI_ENDPOINT''"
    and "map_of m ''base_url'' = None \<or>
         (\<exists>url. map_of m ''base_url'' = Some (PStr url) \<and> \<not> str_contains url ''dashscope.'')"
  shows "provider_call w ''reasoning'' m s =
           (Inr (ChatDeepSeek,
                 dict_set ''api_base'' (case map_of m ''base_url'' of None \<Rightarrow> PNone | Some v \<Rightarrow> v)
                   (dict_del ''base_url'' m)), s)"
  using assms by (auto simp: provider_call_def)

lemma create_llm_use_conf_nonempty:
  assumes "merge_llm_conf w llm_type conf = Inr merged" "merged \<noteq> []"
  shows "create_llm_use_conf w llm_type conf s =
           dispatch_provider w llm_type (handle_verify_ssl (add_max_retries merged)) s"
  using assms by (simp add: create_llm_use_conf_def lmstudio_fallback_def)

lemmas merge_eval = merge_llm_conf_def lookup_eval env_eval

lemmas create_eval = create_llm_use_conf_def lmstudio_fallback_def add_max_retries_def
  handle_verify_ssl_def dict_del_def dispatch_provider_def openai_fallback_def
  dict_setdefault_def getenv_truthy_def getenv_def construct_def init_state_def Let_def

lemma create_llm_use_conf_kwargs:
  assumes "create_llm_use_conf w llm_type conf s = (Inr c, s')"
  shows "\<exists>m s0. dispatch_provider w llm_type (handle_verify_ssl m) s0 = (Inr c, s')"
proof (cases "merge_llm_conf w llm_type conf")
  case (Inl e)
  with assms show ?thesis by (simp add: create_llm_use_conf_def)
next
  case (Inr merged)
  obtain r s1 where f: "lmstudio_fallback w llm_type merged s = (r, s1)"
    by (cases "lmstudio_fallback w llm_type merged s")
  show ?thesis
  proof (cases r)
    case (Inl e)
    with assms Inr f show ?thesis by (simp add: create_llm_use_conf_def)
  next
    case (Inr m1)
    with assms \<open>merge_llm_conf w llm_type conf = Inr merged\<close> f
    have "dispatch_provider w llm_type (handle_verify_ssl (add_max_retries m1)) s1 = (Inr c, s')"
      by (simp add: create_llm_use_conf_def)
    then show ?thesis by blast
  qed
qed

text \<open>
  C5. For every role and every merged configuration (line 107) that does not select
  Azure (no \<open>azure_endpoint\<close> key, \<open>AZURE_OPENAI_ENDPOINT\<close> unset or empty) and whose
  \<open>base_url\<close> is a string containing \<open>dashscope.\<close>, the factory constructs a
  \<open>ChatDashscope\<close> whose options hold \<open>extra_body = {enable_thinking: b}\<close>, where \<open>b\<close> is
  true exactly when the role is \<open>reasoning\<close>.
\<close>

theorem dashscope_dispatch:
  assumes "merge_llm_conf w llm_type conf = Inr merged"
    and "map_of merged ''azure_endpoint'' = None"
    and "\<not> getenv_truthy w ''AZURE_OPENAI_ENDPOINT''"
    and "map_of merged ''base_url'' = Some (PStr url)"
    and "str_contains url ''dashscope.''"
  shows "\<exists>c. create_llm_use_conf w llm_type conf s = (Inr c, s\<lparr>next_oid := Suc (next_oid s)\<rparr>) \<and>
           cls c = ChatDashscope \<and>
           map_of (kwargs c) ''extra_body'' =
             Some (PDict [(''enable_thinking'', PBool (llm_type = ''reasoning''))])"
proof -
  let ?m = "handle_verify_ssl (add_max_retries merged)"
  from assms(4) have ne: "merged \<noteq> []" by auto
  have a: "map_of ?m ''azure_endpoint'' = None" using assms(2) by (simp add: map_of_prepared)
  have b: "map_of ?m ''base_url'' = Some (PStr url)" using assms(4) by (simp add: map_of_prepared)
  show ?thesis
    unfolding create_llm_use_conf_nonempty [OF assms(1) ne]
      dispatch_provider_dashscope [OF a assms(3) b assms(5)]
    by (simp add: construct_def map_of_dict_set)
qed

text \<open>
  The spec's example: \<open>base_url = "https://dashscope.example/v1"\<close> gives
  \<open>enable_thinking: True\<close> for \<open>reasoning\<close> and \<open>enable_thinking: False\<close> for \<open>basic\<close>.
\<close>

theorem dashscope_dispatch_witness:
  "merge_llm_conf world_bare ''reasoning'' yaml_dashscope =
     Inr [(''base_url'', PStr ''https://dashscope.example/v1'')] \<and>
   merge_llm_conf world_bare ''basic'' yaml_dashscope =
     Inr [(''base_url'', PStr ''https://dashscope.example/v1'')] \<and>
   \<not> getenv_truthy world_bare ''AZURE_OPENAI_ENDPOINT'' \<and>
   str_contains ''https://dashscope.example/v1'' ''dashscope.'' \<and>
   (\<exists>c. create_llm_use_conf world_bare ''reasoning'' yaml_dashscope init_state =
          (Inr c, init_state\<lparr>next_oid := Suc (next_oid init_state)\<rparr>) \<and>
        cls c = ChatDashscope \<and>
        map_of (kwargs c) ''extra_body'' = Some (PDict [(''enable_thinking'', PBool True)])) \<and>
   (\<exists>c. create_llm_use_conf world_bare ''basic'' yaml_dashscope init_state =
          (Inr c, init_state\<lparr>next_oid := Suc (next_oid init_state)\<rparr>) \<and>
        cls c = ChatDashscope \<and>
        map_of (kwargs c) ''extra_body'' = Some (PDict [(''enable_thinking'', PBool False)]))"
proof -
  have m1: "merge_llm_conf world_bare ''reasoning'' yaml_dashscope =
     Inr [(''base_url'', PStr ''https://dashscope.example/v1'')]"
    by (simp add: merge_eval world_bare_def yaml_dashscope_def)
  have m2: "merge_llm_conf world_bare ''basic'' yaml_dashscope =
     Inr [(''base_url'', PStr ''https://dashscope.example/v1'')]"
    by (simp add: merge_eval world_bare_def yaml_dashscope_def)
  have az: "\<not> getenv_truthy world_bare ''AZURE_OPENAI_ENDPOINT''"
    by (simp add: getenv_truthy_def getenv_def world_bare_def)
  have sub: "str_contains ''https://dashscope.example/v1'' ''dashscope.''"
    by simp
  have k1: "map_of [(''base_url'', PStr ''https://dashscope.example/v1'')] ''azure_endpoint'' = None"
    by simp
  have k2: "map_of [(''base_url'', PStr ''https://dashscope.example/v1'')] ''base_url''
      = Some (PStr ''https://dashscope.example/v1'')"
    by simp
  show ?thesis
    using dashscope_dispatch [OF m1 k1 az k2 sub, of init_state]
      dashscope_dispatch [OF m2 k1 az k2 sub, of init_state] m1 m2 az sub
    by simp
qed

text \<open>
  C6, as the claim states it: role \<open>reasoning\<close>, no \<open>azure_endpoint\<close> option, a
  \<open>base_url\<close> without the dashscope substring. When \<open>AZURE_OPENAI_ENDPOINT\<close> is set the
  factory calls the constructor of \<open>AzureChatOpenAI\<close>, not the reasoning-specialized one,
  and passes the options unchanged: they keep \<open>base_url\<close> and have no \<open>api_base\<close>.
\<close>

theorem reasoning_rename_under_azure_variable:
  "merge_llm_conf world_azure_env ''reasoning'' yaml_reasoning_api =
     Inr [(''model'', PStr ''deepseek-reasoner''), (''api_key'', PStr ''sk-1''),
          (''base_url'', PStr ''https://api.example.com'')] \<and>
   map_of [(''model'', PStr ''deepseek-reasoner''), (''api_key'', PStr ''sk-1''),
           (''base_url'', PStr ''https://api.example.com'')] ''azure_endpoint'' = None \<and>
   \<not> str_contains ''https://api.example.com'' ''dashscope.'' \<and>
   create_llm_call world_azure_env ''reasoning'' yaml_reasoning_api init_state =
     (Inr (AzureChatOpenAI,
           [(''model'', PStr ''deepseek-reasoner''), (''api_key'', PStr ''sk-1''),
            (''base_url'', PStr ''https://api.example.com''), (''max_retries'', PInt 3)]),
      init_state)"
  by (simp add: merge_eval world_azure_env_def yaml_reasoning_api_def create_llm_call_def
        lmstudio_fallback_def add_max_retries_def handle_verify_ssl_def dict_del_def
        provider_call_def getenv_truthy_def getenv_def init_state_def)

text \<open>
  C6, amended. For role \<open>reasoning\<close> with a merged configuration that has no
  \<open>azure_endpoint\<close> option, while \<open>AZURE_OPENAI_ENDPOINT\<close> is unset or empty, and whose
  \<open>base_url\<close> is a string without the dashscope substring, the factory calls the
  constructor of \<open>ChatDeepSeek\<close>, and the options it passes hold \<open>api_base\<close> with the
  original \<open>base_url\<close> value and no \<open>base_url\<close> key. No request is sent on the way.
\<close>

theorem reasoning_base_url_rename:
  assumes "merge_llm_conf w ''reasoning'' conf = Inr merged"
    and "map_of merged ''azure_endpoint'' = None"
    and "\<not> getenv_truthy w ''AZURE_OPENAI_ENDPOINT''"
    and "map_of merged ''base_url'' = Some (PStr url)"
    and "\<not> str_contains url ''dashscope.''"
  shows "\<exists>options. create_llm_call w ''reasoning'' conf s = (Inr (ChatDeepSeek, options), s) \<and>
           map_of options ''api_base'' = Some (PStr url) \<and>
           map_of options ''base_url'' = None"
proof -
  let ?m = "handle_verify_ssl (add_max_retries merged)"
  from assms(4) have ne: "merged \<noteq> []" by auto
  have a: "map_of ?m ''azure_endpoint'' = None" using assms(2) by (simp add: map_of_prepared)
  have b: "map_of ?m ''base_url'' = Some (PStr url)" using assms(4) by (simp add: map_of_prepared)
  have c: "map_of ?m ''base_url'' = None \<or>
      (\<exists>url. map_of ?m ''base_url'' = Some (PStr url) \<and> \<not> str_contains url ''dashscope.'')"
    using b assms(5) by simp
  show ?thesis
    unfolding create_llm_call_nonempty [OF assms(1) ne]
      provider_call_reasoning [OF a assms(3) c]
    by (simp add: map_of_dict_set map_of_dict_del b)
qed

text \<open>
  The spec's example, \<open>base_url = "https://api.example.com"\<close>, in a configuration that
  also names the model and the key.
\<close>

theorem reasoning_base_url_rename_witness:
  "merge_llm_conf world_bare ''reasoning'' yaml_reasoning_api =
     Inr [(''model'', PStr ''deepseek-reasoner''), (''api_key'', PStr ''sk-1''),
          (''base_url'', PStr ''https://api.example.com'')] \<and>
   \<not> getenv_truthy world_bare ''AZURE_OPENAI_ENDPOINT'' \<and>
   \<not> str_contains ''https://api.example.com'' ''dashscope.'' \<and>
   create_llm_call world_bare ''reasoning'' yaml_reasoning_api init_state =
     (Inr (ChatDeepSeek,
           [(''model'', PStr ''deepseek-reasoner''), (''api_key'', PStr ''sk-1''),
            (''max_retries'', PInt 3), (''api_base'', PStr ''https://api.example.com'')]),
      init_state)"
proof -
  let ?merged = "[(''model'', PStr ''deepseek-reasoner''), (''api_key'', PStr ''sk-1''),
          (''base_url'', PStr ''https://api.example.com'')]"
  have m: "merge_llm_conf world_bare ''reasoning'' yaml_reasoning_api = Inr ?merged"
    by (simp add: merge_eval world_bare_def yaml_reasoning_api_def)
  have az: "\<not> getenv_truthy world_bare ''AZURE_OPENAI_ENDPOINT''"
    by (simp add: getenv_truthy_def getenv_def world_bare_def)
  have sub: "\<not> str_contains ''https://api.example.com'' ''dashscope.''"
    by simp
  have k1: "map_of ?merged ''azure_endpoint'' = None" by simp
  have k2: "map_of ?merged ''base_url'' = Some (PStr ''https://api.example.com'')" by simp
  have e: "create_llm_call world_bare ''reasoning'' yaml_reasoning_api init_state =
     (Inr (ChatDeepSeek,
           [(''model'', PStr ''deepseek-reasoner''), (''api_key'', PStr ''sk-1''),
            (''max_retries'', PInt 3), (''api_base'', PStr ''https://api.example.com'')]),
      init_state)"
    by (simp add: merge_eval world_bare_def yaml_reasoning_api_def create_llm_call_def
        lmstudio_fallback_def add_max_retries_def handle_verify_ssl_def dict_del_def
        provider_call_def getenv_truthy_def getenv_def init_state_def)
  show ?thesis
    using reasoning_base_url_rename [OF m k1 az k2 sub, of init_state] m az sub e
    by simp
qed

text \<open>
  C10. For role \<open>reasoning\<close> with a non-empty merged configuration that does not select
  Azure and has no \<open>base_url\<close> key at all, the factory calls the constructor of
  \<open>ChatDeepSeek\<close>, and the options it passes still hold the key \<open>api_base\<close>, with the
  value \<open>None\<close>.
\<close>

theorem reasoning_api_base_without_base_url:
  assumes "merge_llm_conf w ''reasoning'' conf = Inr merged"
    and "merged \<noteq> []"
    and "map_of merged ''azure_endpoint'' = None"
    and "\<not> getenv_truthy w ''AZURE_OPENAI_ENDPOINT''"
    and "map_of merged ''base_url'' = None"
  shows "\<exists>options. create_llm_call w ''reasoning'' conf s = (Inr (ChatDeepSeek, options), s) \<and>
           map_of options ''api_base'' = Some PNone"
proof -
  let ?m = "handle_verify_ssl (add_max_retries merged)"
  have a: "map_of ?m ''azure_endpoint'' = None" using assms(3) by (simp add: map_of_prepared)
  have b: "map_of ?m ''base_url'' = None" using assms(5) by (simp add: map_of_prepared)
  then have c: "map_of ?m ''base_url'' = None \<or>
      (\<exists>url. map_of ?m ''base_url'' = Some (PStr url) \<and> \<not> str_contains url ''dashscope.'')"
    by simp
  show ?thesis
    unfolding create_llm_call_nonempty [OF assms(1) assms(2)]
      provider_call_reasoning [OF a assms(4) c]
    by (simp add: map_of_dict_set b)
qed

text \<open>
  A reasoning role configured with \<open>model\<close> only: the constructor is called with
  \<open>api_base=None\<close>.
\<close>

theorem reasoning_api_base_without_base_url_witness:
  "merge_llm_conf world_bare ''reasoning'' yaml_reasoning_model =
     Inr [(''model'', PStr ''deepseek-reasoner'')] \<and>
   \<not> getenv_truthy world_bare ''AZURE_OPENAI_ENDPOINT'' \<and>
   create_llm_call world_bare ''reasoning'' yaml_reasoning_model init_state =
     (Inr (ChatDeepSeek,
           [(''model'', PStr ''deepseek-reasoner''), (''max_retries'', PInt 3),
            (''api_base'', PNone)]),
      init_state)"
proof -
  have m: "merge_llm_conf world_bare ''reasoning'' yaml_reasoning_model =
     Inr [(''model'', PStr ''deepseek-reasoner'')]"
    by (simp add: merge_eval world_bare_def yaml_reasoning_model_def)
  have az: "\<not> getenv_truthy world_bare ''AZURE_OPENAI_ENDPOINT''"
    by (simp add: getenv_truthy_def getenv_def world_bare_def)
  have ne: "[(''model'', PStr ''deepseek-reasoner'')] \<noteq> []" by simp
  have k1: "map_of [(''model'', PStr ''deepseek-reasoner'')] ''azure_endpoint'' = None" by simp
  have k2: "map_of [(''model'', PStr ''deepseek-reasoner'')] ''base_url'' = None" by simp
  have e: "create_llm_call world_bare ''reasoning'' yaml_reasoning_model init_state =
     (Inr (ChatDeepSeek,
           [(''model'', PStr ''deepseek-reasoner''), (''max_retries'', PInt 3),
            (''api_base'', PNone)]),
      init_state)"
    by (simp add: merge_eval world_bare_def yaml_reasoning_model_def create_llm_call_def
        lmstudio_fallback_def add_max_retries_def handle_verify_ssl_def dict_del_def
        provider_call_def getenv_truthy_def getenv_def init_state_def)
  show ?thesis
    using reasoning_api_base_without_base_url [OF m ne k1 az k2, of init_state] m az e
    by simp
qed

lemma create_llm_use_conf_dispatch:
  assumes "create_llm_use_conf w llm_type conf s = (Inr c, s')"
    and "merge_llm_conf w llm_type conf = Inr merged"
  shows "\<exists>m1 s1. dispatch_provider w llm_type (handle_verify_ssl (add_max_retries m1)) s1 = (Inr c, s') \<and>
           (merged \<noteq> [] \<longrightarrow> m1 = merged) \<and>
           (merged = [] \<longrightarrow> (\<exists>u. m1 = [(''api_base'', PStr u), (''api_key'', PStr ''lm-studio''),
                                         (''streaming'', PBool True)]))"
proof (cases "merged = []")
  case False
  with assms show ?thesis
    by (auto simp: create_llm_use_conf_def lmstudio_fallback_def)
next
  case True
  obtain found s1 where d: "detect_lmstudio_base_url w s = (Inr found, s1)"
    using detect_returns by blast
  show ?thesis
  proof (cases found)
    case None
    with assms True d show ?thesis
      by (simp add: create_llm_use_conf_def lmstudio_fallback_def)
  next
    case (Some u)
    with d have "u \<noteq> []" using detect_nonempty by blast
    with assms True d Some
    have "dispatch_provider w llm_type
            (handle_verify_ssl (add_max_retries
               [(''api_base'', PStr u), (''api_key'', PStr ''lm-studio''), (''streaming'', PBool True)]))
            s1 = (Inr c, s')"
      by (simp add: create_llm_use_conf_def lmstudio_fallback_def)
    with True show ?thesis by blast
  qed
qed

lemma transports_in_client:
  assumes "create_llm_use_conf w llm_type conf s = (Inr c, s')"
    and "merge_llm_conf w llm_type conf = Inr merged"
    and "map_of merged ''verify_ssl'' = Some (PBool False)"
  shows "map_of (kwargs c) ''http_client'' = Some (PHttpClient False) \<and>
         map_of (kwargs c) ''http_async_client'' = Some (PHttpAsyncClient False)"
proof -
  from assms(3) have ne: "merged \<noteq> []" by auto
  from create_llm_use_conf_dispatch [OF assms(1,2)] ne obtain s1 where
    d: "dispatch_provider w llm_type (handle_verify_ssl (add_max_retries merged)) s1 = (Inr c, s')"
    by blast
  have v: "map_of (add_max_retries merged) ''verify_ssl'' = Some (PBool False)"
    using assms(3) by (simp add: map_of_add_max_retries)
  from dispatch_provider_keeps [OF d, of "''http_client''"]
    dispatch_provider_keeps [OF d, of "''http_async_client''"] v
  show ?thesis by (simp add: map_of_handle_verify_ssl)
qed

lemma no_transports_in_client:
  assumes "create_llm_use_conf w llm_type conf s = (Inr c, s')"
    and "merge_llm_conf w llm_type conf = Inr merged"
    and "map_of merged ''verify_ssl'' = None \<or> map_of merged ''verify_ssl'' = Some (PBool True)"
  shows "map_of (kwargs c) ''http_client'' = map_of merged ''http_client'' \<and>
         map_of (kwargs c) ''http_async_client'' = map_of merged ''http_async_client''"
proof -
  from create_llm_use_conf_dispatch [OF assms(1,2)] obtain m1 s1 where
    d: "dispatch_provider w llm_type (handle_verify_ssl (add_max_retries m1)) s1 = (Inr c, s')"
    and a: "merged \<noteq> [] \<longrightarrow> m1 = merged"
    and b: "merged = [] \<longrightarrow> (\<exists>u. m1 = [(''api_base'', PStr u), (''api_key'', PStr ''lm-studio''),
                                         (''streaming'', PBool True)])"
    by blast
  have v: "map_of m1 ''verify_ssl'' = None \<or> map_of m1 ''verify_ssl'' = Some (PBool True)"
    and h: "map_of m1 ''http_client'' = map_of merged ''http_client''"
           "map_of m1 ''http_async_client'' = map_of merged ''http_async_client''"
    using a b assms(3) by (cases "merged = []"; auto)+
  from v have "map_of (handle_verify_ssl (add_max_retries m1)) ''http_client'' = map_of m1 ''http_client'' \<and>
     map_of (handle_verify_ssl (add_max_retries m1)) ''http_async_client'' = map_of m1 ''http_async_client''"
    by (elim disjE) (simp_all add: map_of_handle_verify_ssl map_of_add_max_retries)
  with dispatch_provider_keeps [OF d, of "''http_client''"]
    dispatch_provider_keeps [OF d, of "''http_async_client''"] h
  show ?thesis by simp
qed

text \<open>
  C9. \<open>verify_ssl\<close> is popped from the merged configuration (default \<open>True\<close>): the
  configuration after the step has no such key, and no client is ever constructed with a
  \<open>verify_ssl\<close> option. When the value is \<open>False\<close> the step stores an \<open>httpx.Client\<close> and
  an \<open>httpx.AsyncClient\<close> with \<open>verify=False\<close> under \<open>http_client\<close> and
  \<open>http_async_client\<close>. When the value is \<open>True\<close> or the key is absent the step only
  removes the key: nothing is added and every other key keeps its value. In every case
  the keys other than \<open>verify_ssl\<close>, \<open>http_client\<close> and \<open>http_async_client\<close> keep their
  values. The transports stored by the step reach the constructor: a client built from a
  merged configuration with \<open>verify_ssl: False\<close> has both of them among its options, and
  one built with \<open>verify_ssl\<close> true or absent has under \<open>http_client\<close> and
  \<open>http_async_client\<close> only what the merged configuration had there.
\<close>

theorem verify_ssl_handling:
  "map_of (handle_verify_ssl m) ''verify_ssl'' = None \<and>
   (map_of m ''verify_ssl'' = Some (PBool False) \<longrightarrow>
      map_of (handle_verify_ssl m) ''http_client'' = Some (PHttpClient False) \<and>
      map_of (handle_verify_ssl m) ''http_async_client'' = Some (PHttpAsyncClient False)) \<and>
   (map_of m ''verify_ssl'' = None \<or> map_of m ''verify_ssl'' = Some (PBool True) \<longrightarrow>
      handle_verify_ssl m = dict_del ''verify_ssl'' m \<and>
      (\<forall>k. k \<noteq> ''verify_ssl'' \<longrightarrow> map_of (handle_verify_ssl m) k = map_of m k)) \<and>
   (\<forall>k. k \<noteq> ''verify_ssl'' \<and> k \<noteq> ''http_client'' \<and> k \<noteq> ''http_async_client'' \<longrightarrow>
      map_of (handle_verify_ssl m) k = map_of m k) \<and>
   (\<forall>c s'. create_llm_use_conf w llm_type conf s = (Inr c, s') \<longrightarrow>
      map_of (kwargs c) ''verify_ssl'' = None) \<and>
   (\<forall>merged c s'.
      create_llm_use_conf w llm_type conf s = (Inr c, s') \<and>
      merge_llm_conf w llm_type conf = Inr merged \<and>
      map_of merged ''verify_ssl'' = Some (PBool False) \<longrightarrow>
        map_of (kwargs c) ''http_client'' = Some (PHttpClient False) \<and>
        map_of (kwargs c) ''http_async_client'' = Some (PHttpAsyncClient False)) \<and>
   (\<forall>merged c s'.
      create_llm_use_conf w llm_type conf s = (Inr c, s') \<and>
      merge_llm_conf w llm_type conf = Inr merged \<and>
      (map_of merged ''verify_ssl'' = None \<or> map_of merged ''verify_ssl'' = Some (PBool True)) \<longrightarrow>
        map_of (kwargs c) ''http_client'' = map_of merged ''http_client'' \<and>
        map_of (kwargs c) ''http_async_client'' = map_of merged ''http_async_client'')"
proof (intro conjI allI impI)
  show "map_of (handle_verify_ssl m) ''verify_ssl'' = None"
    by (simp add: map_of_handle_verify_ssl)
next
  assume "map_of m ''verify_ssl'' = Some (PBool False)"
  then show "map_of (handle_verify_ssl m) ''http_client'' = Some (PHttpClient False)"
    by (simp add: map_of_handle_verify_ssl)
next
  assume "map_of m ''verify_ssl'' = Some (PBool False)"
  then show "map_of (handle_verify_ssl m) ''http_async_client'' = Some (PHttpAsyncClient False)"
    by (simp add: map_of_handle_verify_ssl)
next
  assume "map_of m ''verify_ssl'' = None \<or> map_of m ''verify_ssl'' = Some (PBool True)"
  then show "handle_verify_ssl m = dict_del ''verify_ssl'' m"
    by (elim disjE) (simp_all add: handle_verify_ssl_def)
next
  fix k
  assume "map_of m ''verify_ssl'' = None \<or> map_of m ''verify_ssl'' = Some (PBool True)"
    and "k \<noteq> ''verify_ssl''"
  then show "map_of (handle_verify_ssl m) k = map_of m k"
    by (elim disjE) (simp_all add: map_of_handle_verify_ssl)
next
  fix k
  assume "k \<noteq> ''verify_ssl'' \<and> k \<noteq> ''http_client'' \<and> k \<noteq> ''http_async_client''"
  then show "map_of (handle_verify_ssl m) k = map_of m k"
    by (simp add: map_of_handle_verify_ssl)
next
  fix c s'
  assume "create_llm_use_conf w llm_type conf s = (Inr c, s')"
  from create_llm_use_conf_kwargs [OF this] obtain m0 s0 where
    d: "dispatch_provider w llm_type (handle_verify_ssl m0) s0 = (Inr c, s')"
    by blast
  from dispatch_provider_keeps [OF d, of "''verify_ssl''"]
  show "map_of (kwargs c) ''verify_ssl'' = None" by (simp add: map_of_handle_verify_ssl)
next
  fix merged c s'
  assume a: "create_llm_use_conf w llm_type conf s = (Inr c, s') \<and>
      merge_llm_conf w llm_type conf = Inr merged \<and>
      map_of merged ''verify_ssl'' = Some (PBool False)"
  then have "map_of (kwargs c) ''http_client'' = Some (PHttpClient False) \<and>
      map_of (kwargs c) ''http_async_client'' = Some (PHttpAsyncClient False)"
    using transports_in_client by blast
  then show "map_of (kwargs c) ''http_client'' = Some (PHttpClient False)"
    and "map_of (kwargs c) ''http_async_client'' = Some (PHttpAsyncClient False)"
    by simp_all
next
  fix merged c s'
  assume a: "create_llm_use_conf w llm_type conf s = (Inr c, s') \<and>
      merge_llm_conf w llm_type conf = Inr merged \<and>
      (map_of merged ''verify_ssl'' = None \<or> map_of merged ''verify_ssl'' = Some (PBool True))"
  then have "map_of (kwargs c) ''http_client'' = map_of merged ''http_client'' \<and>
      map_of (kwargs c) ''http_async_client'' = map_of merged ''http_async_client''"
    using no_transports_in_client by blast
  then show "map_of (kwargs c) ''http_client'' = map_of merged ''http_client''"
    and "map_of (kwargs c) ''http_async_client'' = map_of merged ''http_async_client''"
    by simp_all
qed

text \<open>
  A \<open>basic\<close> role with \<open>verify_ssl: False\<close>: the \<open>ChatOpenAI\<close> is built with both
  transports and without \<open>verify_ssl\<close>.
\<close>

theorem verify_ssl_handling_witness:
  "map_of [(''model'', PStr ''qwen''), (''verify_ssl'', PBool False)] ''verify_ssl'' = Some (PBool False) \<and>
   map_of (handle_verify_ssl [(''model'', PStr ''qwen''), (''verify_ssl'', PBool False)]) ''http_client''
     = Some (PHttpClient False) \<and>
   map_of (handle_verify_ssl [(''model'', PStr ''qwen''), (''verify_ssl'', PBool False)]) ''http_async_client''
     = Some (PHttpAsyncClient False) \<and>
   handle_verify_ssl [(''model'', PStr ''qwen''), (''verify_ssl'', PBool False)] =
     [(''model'', PStr ''qwen''), (''http_client'', PHttpClient False),
      (''http_async_client'', PHttpAsyncClient False)] \<and>
   handle_verify_ssl [(''model'', PStr ''qwen''), (''verify_ssl'', PBool True)] =
     [(''model'', PStr ''qwen'')] \<and>
   handle_verify_ssl [(''model'', PStr ''qwen'')] = [(''model'', PStr ''qwen'')] \<and>
   create_llm_use_conf world_bare ''basic'' yaml_no_verify init_state =
     (Inr \<lparr>oid = 0, cls = ChatOpenAI,
           kwargs = [(''model'', PStr ''qwen''), (''base_url'', PStr ''https://llm.example.com/v1''),
                     (''max_retries'', PInt 3), (''http_client'', PHttpClient False),
                     (''http_async_client'', PHttpAsyncClient False),
                     (''api_base'', PStr ''https://llm.example.com/v1''),
                     (''api_key'', PStr ''lm-studio''), (''streaming'', PBool True)]\<rparr>,
      init_state\<lparr>next_oid := 1\<rparr>)"
proof -
  let ?m = "[(''model'', PStr ''qwen''), (''verify_ssl'', PBool False)]"
  have h: "map_of ?m ''verify_ssl'' = Some (PBool False)" by simp
  from verify_ssl_handling [of ?m world_bare "''basic''" yaml_no_verify init_state,
      THEN conjunct2, THEN conjunct1, THEN mp, OF h]
  have t: "map_of (handle_verify_ssl ?m) ''http_client'' = Some (PHttpClient False) \<and>
      map_of (handle_verify_ssl ?m) ''http_async_client'' = Some (PHttpAsyncClient False)" .
  have e1: "handle_verify_ssl ?m =
     [(''model'', PStr ''qwen''), (''http_client'', PHttpClient False),
      (''http_async_client'', PHttpAsyncClient False)]"
    by (simp add: handle_verify_ssl_def dict_del_def)
  have e2: "handle_verify_ssl [(''model'', PStr ''qwen''), (''verify_ssl'', PBool True)] =
     [(''model'', PStr ''qwen'')]"
    by (simp add: handle_verify_ssl_def dict_del_def)
  have e3: "handle_verify_ssl [(''model'', PStr ''qwen'')] = [(''model'', PStr ''qwen'')]"
    by (simp add: handle_verify_ssl_def dict_del_def)
  have e4: "create_llm_use_conf world_bare ''basic'' yaml_no_verify init_state =
     (Inr \<lparr>oid = 0, cls = ChatOpenAI,
           kwargs = [(''model'', PStr ''qwen''), (''base_url'', PStr ''https://llm.example.com/v1''),
                     (''max_retries'', PInt 3), (''http_client'', PHttpClient False),
                     (''http_async_client'', PHttpAsyncClient False),
                     (''api_base'', PStr ''https://llm.example.com/v1''),
                     (''api_key'', PStr ''lm-studio''), (''streaming'', PBool True)]\<rparr>,
      init_state\<lparr>next_oid := 1\<rparr>)"
    by (simp add: merge_eval world_bare_def yaml_no_verify_def create_eval)
  from h t e1 e2 e3 e4 show ?thesis by simp
qed

section \<open>Errors of the resolution\<close>

lemma unknown_role_key:
  "llm_type \<notin> {''reasoning'', ''basic'', ''vision'', ''code''} \<Longrightarrow>
     map_of get_llm_type_config_keys llm_type = None"
  by (simp add: get_llm_type_config_keys_def)

lemma known_role_key_nonempty:
  "map_of get_llm_type_config_keys llm_type = Some key \<Longrightarrow> key \<noteq> []"
  by (auto simp: get_llm_type_config_keys_def split: if_splits)

lemma lookup_llm_conf_unknown:
  "map_of get_llm_type_config_keys llm_type = None \<Longrightarrow>
     lookup_llm_conf llm_type conf = Inl (Exc ValueError [Lit ''Unknown LLM type: '', Fmt (PStr llm_type)])"
  by (simp add: lookup_llm_conf_def)

lemma lookup_llm_conf_not_dict:
  assumes "map_of get_llm_type_config_keys llm_type = Some key"
    and "map_of d key = Some v" and "\<not> is_dict v"
  shows "lookup_llm_conf llm_type (PDict d) =
           Inl (Exc ValueError
                 [Lit ''Invalid LLM configuration for '', Fmt (PStr llm_type), Lit '': '', Fmt v])"
  using assms known_role_key_nonempty [OF assms(1)]
  by (cases v) (simp_all add: lookup_llm_conf_def)

text \<open>
  C8, as the claim states it: an unknown role, a sub-section that is not a mapping and a
  missing configuration fail with distinct error types. The code raises the one class
  \<open>ValueError\<close> in all three cases.
\<close>

theorem error_classes_coincide:
  "create_llm_use_conf world_bare ''audio'' (PDict []) init_state =
     (Inl (Exc ValueError [Lit ''Unknown LLM type: '', Fmt (PStr ''audio'')]), init_state) \<and>
   create_llm_use_conf world_bare ''basic'' yaml_basic_string init_state =
     (Inl (Exc ValueError
            [Lit ''Invalid LLM configuration for '', Fmt (PStr ''basic''), Lit '': '',
             Fmt (PStr ''gpt-4o'')]), init_state) \<and>
   fst (create_llm_use_conf world_bare ''basic'' (PDict []) init_state) =
     Inl (Exc ValueError
           [Lit ''No configuration found for LLM type: '', Fmt (PStr ''basic''),
            Lit '' and LM Studio not detected''])"
  by (simp add: create_llm_use_conf_def merge_eval lmstudio_fallback_def detect_eval
        world_bare_def yaml_basic_string_def)

text \<open>
  C8, amended. The resolution fails with a \<open>ValueError\<close> whose message is
  "Unknown LLM type: <role>" when the role is outside \<open>{reasoning, basic, vision, code}\<close>,
  and with a \<open>ValueError\<close> whose message is "Invalid LLM configuration for <role>: <value>"
  when the role's YAML sub-section is present but not a mapping. Neither changes the
  state, and \<open>get_llm_by_type\<close> passes the failure on to its caller. The two errors and the
  error of a missing configuration have the same class and differ in their messages.
\<close>

theorem error_taxonomy:
  "(llm_type \<notin> {''reasoning'', ''basic'', ''vision'', ''code''} \<longrightarrow>
      create_llm_use_conf w llm_type conf s =
        (Inl (Exc ValueError [Lit ''Unknown LLM type: '', Fmt (PStr llm_type)]), s)) \<and>
   (map_of get_llm_type_config_keys llm_type = Some key \<and> map_of d key = Some v \<and> \<not> is_dict v \<longrightarrow>
      create_llm_use_conf w llm_type (PDict d) s =
        (Inl (Exc ValueError
               [Lit ''Invalid LLM configuration for '', Fmt (PStr llm_type), Lit '': '', Fmt v]), s)) \<and>
   (map_of (llm_cache s) llm_type = None \<and> load_yaml_config w = Inr conf \<and>
    create_llm_use_conf w llm_type conf s = (Inl e, s') \<longrightarrow>
      get_llm_by_type w llm_type s = (Inl e, s')) \<and>
   Exc ValueError [Lit ''Unknown LLM type: '', Fmt (PStr t1)] \<noteq>
     Exc ValueError [Lit ''Invalid LLM configuration for '', Fmt (PStr t2), Lit '': '', Fmt v2] \<and>
   Exc ValueError [Lit ''Unknown LLM type: '', Fmt (PStr t1)] \<noteq>
     Exc ValueError [Lit ''No configuration found for LLM type: '', Fmt (PStr t3),
                     Lit '' and LM Studio not detected''] \<and>
   Exc ValueError [Lit ''Invalid LLM configuration for '', Fmt (PStr t2), Lit '': '', Fmt v2] \<noteq>
     Exc ValueError [Lit ''No configuration found for LLM type: '', Fmt (PStr t3),
                     Lit '' and LM Studio not detected'']"
proof (intro conjI impI)
  assume "llm_type \<notin> {''reasoning'', ''basic'', ''vision'', ''code''}"
  then have "map_of get_llm_type_config_keys llm_type = None" by (rule unknown_role_key)
  then show "create_llm_use_conf w llm_type conf s =
      (Inl (Exc ValueError [Lit ''Unknown LLM type: '', Fmt (PStr llm_type)]), s)"
    by (simp add: create_llm_use_conf_def merge_llm_conf_def lookup_llm_conf_unknown)
next
  assume "map_of get_llm_type_config_keys llm_type = Some key \<and> map_of d key = Some v \<and> \<not> is_dict v"
  then have "lookup_llm_conf llm_type (PDict d) =
      Inl (Exc ValueError
            [Lit ''Invalid LLM configuration for '', Fmt (PStr llm_type), Lit '': '', Fmt v])"
    using lookup_llm_conf_not_dict by blast
  then show "create_llm_use_conf w llm_type (PDict d) s =
      (Inl (Exc ValueError
             [Lit ''Invalid LLM configuration for '', Fmt (PStr llm_type), Lit '': '', Fmt v]), s)"
    by (simp add: create_llm_use_conf_def merge_llm_conf_def)
next
  assume "map_of (llm_cache s) llm_type = None \<and> load_yaml_config w = Inr conf \<and>
    create_llm_use_conf w llm_type conf s = (Inl e, s')"
  then show "get_llm_by_type w llm_type s = (Inl e, s')"
    by (simp add: get_llm_by_type_def)
qed simp_all

text \<open>The role \<open>audio\<close> is unknown; a \<open>CODE_MODEL\<close> section that is a list is refused.\<close>

theorem error_taxonomy_witness:
  "''audio'' \<notin> {''reasoning'', ''basic'', ''vision'', ''code''} \<and>
   create_llm_use_conf world_bare ''audio'' (PDict []) init_state =
     (Inl (Exc ValueError [Lit ''Unknown LLM type: '', Fmt (PStr ''audio'')]), init_state) \<and>
   map_of get_llm_type_config_keys ''code'' = Some ''CODE_MODEL'' \<and>
   map_of [(''CODE_MODEL'', PList [PStr ''gpt-4o''])] ''CODE_MODEL'' = Some (PList [PStr ''gpt-4o'']) \<and>
   \<not> is_dict (PList [PStr ''gpt-4o'']) \<and>
   create_llm_use_conf world_bare ''code'' (PDict [(''CODE_MODEL'', PList [PStr ''gpt-4o''])]) init_state =
     (Inl (Exc ValueError
            [Lit ''Invalid LLM configuration for '', Fmt (PStr ''code''), Lit '': '',
             Fmt (PList [PStr ''gpt-4o''])]), init_state)"
proof -
  have a: "''audio'' \<notin> {''reasoning'', ''basic'', ''vision'', ''code''}" by simp
  have k: "map_of get_llm_type_config_keys ''code'' = Some ''CODE_MODEL''"
    by (simp add: get_llm_type_config_keys_def)
  have v: "map_of [(''CODE_MODEL'', PList [PStr ''gpt-4o''])] ''CODE_MODEL'' = Some (PList [PStr ''gpt-4o''])"
    by simp
  have n: "\<not> is_dict (PList [PStr ''gpt-4o''])" by simp
  note t1 = error_taxonomy [of "''audio''" world_bare "PDict []" init_state, THEN conjunct1, THEN mp, OF a]
  note t2 = error_taxonomy [of "''code''" world_bare _ init_state "''CODE_MODEL''"
      "[(''CODE_MODEL'', PList [PStr ''gpt-4o''])]" "PList [PStr ''gpt-4o'']",
      THEN conjunct2, THEN conjunct1, THEN mp, OF conjI [OF k conjI [OF v n]]]
  from a k v n t1 t2 show ?thesis by simp
qed

section \<open>The instance cache\<close>

lemma construct_frame:
  "construct p kw s = (res, s') \<Longrightarrow>
     llm_cache s' = llm_cache s \<and> next_oid s' = Suc (next_oid s) \<and> (\<exists>c. res = Inr c)"
  by (auto simp: construct_def)

lemma openai_fallback_frame:
  assumes "openai_fallback w m s = (res, s')"
  shows "llm_cache s' = llm_cache s \<and>
         (case res of Inl e \<Rightarrow> next_oid s' = next_oid s | Inr c \<Rightarrow> next_oid s' = Suc (next_oid s))"
proof (cases "truthy (case map_of m ''base_url'' of None \<Rightarrow> PNone | Some v \<Rightarrow> v)")
  case True
  with assms obtain kw where "construct ChatOpenAI kw s = (res, s')"
    by (auto simp: openai_fallback_def Let_def split: if_splits)
  from construct_frame [OF this] show ?thesis by auto
next
  case False
  obtain found s1 where d: "detect_lmstudio_base_url w s = (Inr found, s1)"
    using detect_returns by blast
  with assms False obtain kw where "construct ChatOpenAI kw s1 = (res, s')"
    by (auto simp: openai_fallback_def Let_def split: if_splits)
  from construct_frame [OF this] detect_frame [OF d] show ?thesis by auto
qed

lemma dispatch_provider_frame:
  assumes "dispatch_provider w llm_type m s = (res, s')"
  shows "llm_cache s' = llm_cache s \<and>
         (case res of Inl e \<Rightarrow> next_oid s' = next_oid s | Inr c \<Rightarrow> next_oid s' = Suc (next_oid s))"
proof -
  from assms consider
      (c) p kw where "construct p kw s = (res, s')"
    | (e) e where "res = Inl e" "s' = s"
    | (f) "openai_fallback w m s = (res, s')"
    by (auto simp: dispatch_provider_def split: if_splits sum.splits bool.splits)
  then show ?thesis
  proof cases
    case c
    from construct_frame [OF c] show ?thesis by auto
  next
    case e
    then show ?thesis by simp
  next
    case f
    then show ?thesis by (rule openai_fallback_frame)
  qed
qed

lemma lmstudio_fallback_frame:
  assumes "lmstudio_fallback w llm_type m s = (res, s')"
  shows "llm_cache s' = llm_cache s \<and> next_oid s' = next_oid s"
proof (cases "m = []")
  case False
  with assms show ?thesis by (simp add: lmstudio_fallback_def)
next
  case True
  obtain found s1 where d: "detect_lmstudio_base_url w s = (Inr found, s1)"
    using detect_returns by blast
  with assms True have "s' = s1"
    by (auto simp: lmstudio_fallback_def split: if_splits)
  with detect_frame [OF d] show ?thesis by simp
qed

lemma create_llm_use_conf_frame:
  assumes "create_llm_use_conf w llm_type conf s = (res, s')"
  shows "llm_cache s' = llm_cache s \<and>
         (case res of Inl e \<Rightarrow> next_oid s' = next_oid s | Inr c \<Rightarrow> next_oid s' = Suc (next_oid s))"
proof (cases "merge_llm_conf w llm_type conf")
  case (Inl e)
  with assms show ?thesis by (auto simp: create_llm_use_conf_def)
next
  case (Inr merged)
  obtain r s1 where f: "lmstudio_fallback w llm_type merged s = (r, s1)"
    by (cases "lmstudio_fallback w llm_type merged s")
  note fr = lmstudio_fallback_frame [OF f]
  show ?thesis
  proof (cases r)
    case (Inl e)
    with assms Inr f fr show ?thesis by (auto simp: create_llm_use_conf_def)
  next
    case (Inr m1)
    with assms \<open>merge_llm_conf w llm_type conf = Inr merged\<close> f
    have "dispatch_provider w llm_type (handle_verify_ssl (add_max_retries m1)) s1 = (res, s')"
      by (simp add: create_llm_use_conf_def)
    from dispatch_provider_frame [OF this] fr show ?thesis by (auto split: sum.splits)
  qed
qed

text \<open>What one call of \<open>get_llm_by_type\<close> does to the cache and to the count of objects.\<close>

lemma get_llm_by_type_cached:
  "map_of (llm_cache s) llm_type = Some c \<Longrightarrow> get_llm_by_type w llm_type s = (Inr c, s)"
  by (simp add: get_llm_by_type_def)

lemma get_llm_by_type_step:
  assumes "get_llm_by_type w llm_type s = (res, s')"
  shows "next_oid s' = next_oid s \<and> llm_cache s' = llm_cache s \<or>
         next_oid s' = Suc (next_oid s) \<and> map_of (llm_cache s) llm_type = None \<and>
           (\<exists>c. llm_cache s' = dict_set llm_type c (llm_cache s))"
proof (cases "map_of (llm_cache s) llm_type")
  case (Some c)
  with assms show ?thesis by (simp add: get_llm_by_type_def)
next
  case None
  show ?thesis
  proof (cases "load_yaml_config w")
    case (Inl e)
    with assms None show ?thesis by (auto simp: get_llm_by_type_def)
  next
    case (Inr conf)
    obtain r s1 where c: "create_llm_use_conf w llm_type conf s = (r, s1)"
      by (cases "create_llm_use_conf w llm_type conf s")
    note fr = create_llm_use_conf_frame [OF c]
    show ?thesis
    proof (cases r)
      case (Inl e)
      with assms None Inr c fr show ?thesis by (auto simp: get_llm_by_type_def)
    next
      case (Inr llm)
      with assms None \<open>load_yaml_config w = Inr conf\<close> c fr show ?thesis
        by (auto simp: get_llm_by_type_def)
    qed
  qed
qed

lemma constructed_for_bound:
  "constructed_for r calls s \<le> (if map_of (llm_cache s) r = None then 1 else 0)"
proof (induction calls arbitrary: s)
  case Nil
  show ?case by simp
next
  case (Cons c calls)
  obtain res s' where g: "get_llm_by_type (fst c) (snd c) s = (res, s')"
    by (cases "get_llm_by_type (fst c) (snd c) s")
  note ih = Cons.IH [of s']
  from get_llm_by_type_step [OF g] show ?case
  proof
    assume a: "next_oid s' = next_oid s \<and> llm_cache s' = llm_cache s"
    with ih g show ?thesis by (auto simp: Let_def split: if_splits)
  next
    assume a: "next_oid s' = Suc (next_oid s) \<and> map_of (llm_cache s) (snd c) = None \<and>
           (\<exists>c'. llm_cache s' = dict_set (snd c) c' (llm_cache s))"
    then obtain c' where c': "llm_cache s' = dict_set (snd c) c' (llm_cache s)" by blast
    show ?thesis
    proof (cases "snd c = r")
      case True
      with c' have "map_of (llm_cache s') r \<noteq> None" by (simp add: map_of_dict_set)
      with ih have "constructed_for r calls s' = 0" by simp
      with a True g show ?thesis by (simp add: Let_def)
    next
      case False
      with c' have "map_of (llm_cache s') r = map_of (llm_cache s) r" by (simp add: map_of_dict_set)
      with ih False g show ?thesis by (simp add: Let_def)
    qed
  qed
qed

text \<open>
  C1. When a call of \<open>get_llm_by_type\<close> for a role returns a client, the next call for
  that role, whatever the environment, the configuration file and the network have become,
  returns the same object (the same \<open>oid\<close>) and leaves the state as it is: nothing is
  constructed and no request is sent. In every sequence of calls from the initial state,
  the calls for one role construct at most one client.
\<close>

theorem cache_idempotence:
  "(get_llm_by_type w1 llm_type s = (Inr c, s1) \<longrightarrow> get_llm_by_type w2 llm_type s1 = (Inr c, s1)) \<and>
   constructed_for llm_type calls init_state \<le> 1"
proof (intro conjI impI)
  assume g: "get_llm_by_type w1 llm_type s = (Inr c, s1)"
  have "map_of (llm_cache s1) llm_type = Some c"
  proof (cases "map_of (llm_cache s) llm_type")
    case (Some c0)
    with g show ?thesis by (simp add: get_llm_by_type_def)
  next
    case None
    with g show ?thesis
      by (auto simp: get_llm_by_type_def map_of_dict_set split: sum.splits prod.splits)
  qed
  then show "get_llm_by_type w2 llm_type s1 = (Inr c, s1)" by (rule get_llm_by_type_cached)
next
  from constructed_for_bound [of llm_type calls init_state]
  show "constructed_for llm_type calls init_state \<le> 1" by (simp split: if_splits)
qed

text \<open>
  The first call for \<open>basic\<close> constructs the client with \<open>oid\<close> 0 and caches it; a second
  call in another environment returns it; three calls construct one client.
\<close>

theorem cache_idempotence_witness:
  "get_llm_by_type world_basic ''basic'' init_state = (Inr client_basic, state_basic_cached) \<and>
   get_llm_by_type world_bare ''basic'' state_basic_cached = (Inr client_basic, state_basic_cached) \<and>
   constructed_for ''basic''
     [(world_basic, ''basic''), (world_bare, ''basic''), (world_basic, ''basic'')] init_state = 1"
proof -
  have c: "create_llm_use_conf world_basic ''basic'' yaml_basic init_state
      = (Inr client_basic, init_state\<lparr>next_oid := 1\<rparr>)"
    by (simp add: merge_eval world_basic_def yaml_basic_def create_eval client_basic_def)
  have l: "load_yaml_config world_basic = Inr yaml_basic"
    by (simp add: world_basic_def)
  have e: "map_of (llm_cache init_state) ''basic'' = None"
    by (simp add: init_state_def)
  have g1: "get_llm_by_type world_basic ''basic'' init_state = (Inr client_basic, state_basic_cached)"
    by (simp add: get_llm_by_type_def l e c) (simp add: init_state_def state_basic_cached_def)
  note g2 = cache_idempotence [of world_basic "''basic''" init_state client_basic state_basic_cached
      world_bare "[]", THEN conjunct1, THEN mp, OF g1]
  have g3: "get_llm_by_type world_basic ''basic'' state_basic_cached = (Inr client_basic, state_basic_cached)"
    by (simp add: get_llm_by_type_def state_basic_cached_def)
  have n: "next_oid state_basic_cached - next_oid init_state = 1"
    by (simp add: state_basic_cached_def init_state_def)
  from g1 g2 g3 n show ?thesis by simp
qed

section \<open>The report of the configured models\<close>

lemma lookup_llm_conf_Inr:
  assumes "lookup_llm_conf r conf = Inr yc"
  shows "\<exists>key. map_of get_llm_type_config_keys r = Some key \<and> key \<noteq> [] \<and>
           py_get conf key (PDict []) = Inr (PDict yc)"
  using assms
  by (auto simp: lookup_llm_conf_def split: option.splits if_splits sum.splits pyval.splits)

lemma lookup_llm_conf_Inl:
  assumes "lookup_llm_conf r conf = Inl e" and "map_of get_llm_type_config_keys r = Some key"
  shows "key \<noteq> [] \<and> (py_get conf key (PDict []) = Inl e \<or>
           (\<exists>v. py_get conf key (PDict []) = Inr v \<and> \<not> is_dict v))"
  using assms known_role_key_nonempty [OF assms(2)]
  by (auto simp: lookup_llm_conf_def split: sum.splits pyval.splits)

lemma loop_step_ok:
  assumes "lookup_llm_conf r conf = Inr yc"
  shows "configured_models_loop w conf (r # rest) cm =
           configured_models_loop w conf rest
             (case configured_model w conf r of None \<Rightarrow> cm | Some v \<Rightarrow> append_model r v cm)"
proof -
  from lookup_llm_conf_Inr [OF assms] obtain key where
    k: "map_of get_llm_type_config_keys r = Some key" "key \<noteq> []"
       "py_get conf key (PDict []) = Inr (PDict yc)"
    by blast
  have m: "merge_llm_conf w r conf = Inr (dict_update yc (get_env_llm_conf w r))"
    using assms by (simp add: merge_llm_conf_def)
  show ?thesis
    using k by (simp add: configured_model_def m Let_def split: option.splits)
qed

lemma loop_step_fail:
  assumes "lookup_llm_conf r conf = Inl e" and "map_of get_llm_type_config_keys r = Some key"
  shows "\<exists>e'. configured_models_loop w conf (r # rest) cm = Inl e'"
proof -
  from lookup_llm_conf_Inl [OF assms] have ne: "key \<noteq> []"
    and c: "py_get conf key (PDict []) = Inl e \<or>
           (\<exists>v. py_get conf key (PDict []) = Inr v \<and> \<not> is_dict v)"
    by blast+
  from c show ?thesis
  proof
    assume "py_get conf key (PDict []) = Inl e"
    with assms(2) ne show ?thesis by simp
  next
    assume "\<exists>v. py_get conf key (PDict []) = Inr v \<and> \<not> is_dict v"
    then obtain v where "py_get conf key (PDict []) = Inr v" "\<not> is_dict v" by blast
    with assms(2) ne show ?thesis by (cases v) simp_all
  qed
qed

lemma map_of_append_model:
  "map_of (append_model r v cm) r' =
     (if r' = r then Some ((case map_of cm r of None \<Rightarrow> [] | Some names \<Rightarrow> names) @ [v])
      else map_of cm r')"
  by (simp add: append_model_def map_of_dict_set split: option.splits)

lemma loop_ok:
  assumes "\<forall>r\<in>set roles. \<exists>yc. lookup_llm_conf r conf = Inr yc" and "distinct roles"
  shows "\<exists>cm'. configured_models_loop w conf roles cm = Inr cm' \<and>
           (\<forall>r. map_of cm' r =
                  (if r \<in> set roles
                   then (case configured_model w conf r of
                           None \<Rightarrow> map_of cm r
                         | Some v \<Rightarrow>
                             Some ((case map_of cm r of None \<Rightarrow> [] | Some names \<Rightarrow> names) @ [v]))
                   else map_of cm r))"
  using assms
proof (induction roles arbitrary: cm)
  case Nil
  show ?case by simp
next
  case (Cons a roles)
  from Cons.prems obtain yc where yc: "lookup_llm_conf a conf = Inr yc" by auto
  let ?cm1 = "case configured_model w conf a of None \<Rightarrow> cm | Some v \<Rightarrow> append_model a v cm"
  from Cons.prems have p: "\<forall>r\<in>set roles. \<exists>yc. lookup_llm_conf r conf = Inr yc" "distinct roles"
    and notin: "a \<notin> set roles"
    by auto
  from Cons.IH [OF p, of ?cm1] obtain cm' where
    r: "configured_models_loop w conf roles ?cm1 = Inr cm'"
    and l: "\<forall>r. map_of cm' r =
                  (if r \<in> set roles
                   then (case configured_model w conf r of
                           None \<Rightarrow> map_of ?cm1 r
                         | Some v \<Rightarrow>
                             Some ((case map_of ?cm1 r of None \<Rightarrow> [] | Some names \<Rightarrow> names) @ [v]))
                   else map_of ?cm1 r)"
    by blast
  have "configured_models_loop w conf (a # roles) cm = Inr cm'"
    using r by (simp only: loop_step_ok [OF yc])
  moreover have "\<forall>r. map_of cm' r =
                  (if r \<in> set (a # roles)
                   then (case configured_model w conf r of
                           None \<Rightarrow> map_of cm r
                         | Some v \<Rightarrow>
                             Some ((case map_of cm r of None \<Rightarrow> [] | Some names \<Rightarrow> names) @ [v]))
                   else map_of cm r)"
  proof
    fix r
    show "map_of cm' r =
                  (if r \<in> set (a # roles)
                   then (case configured_model w conf r of
                           None \<Rightarrow> map_of cm r
                         | Some v \<Rightarrow>
                             Some ((case map_of cm r of None \<Rightarrow> [] | Some names \<Rightarrow> names) @ [v]))
                   else map_of cm r)"
      using l [rule_format, of r] notin
      by (cases "r = a") (auto simp: map_of_append_model split: option.splits)
  qed
  ultimately show ?case by blast
qed

lemma loop_fail:
  assumes "\<exists>r\<in>set roles. isl (lookup_llm_conf r conf)"
    and "\<forall>r\<in>set roles. map_of get_llm_type_config_keys r \<noteq> None"
  shows "\<exists>e. configured_models_loop w conf roles cm = Inl e"
  using assms
proof (induction roles arbitrary: cm)
  case Nil
  then show ?case by simp
next
  case (Cons a roles)
  from Cons.prems(2) obtain key where key: "map_of get_llm_type_config_keys a = Some key" by auto
  show ?case
  proof (cases "lookup_llm_conf a conf")
    case (Inl e)
    from loop_step_fail [OF Inl key] show ?thesis .
  next
    case (Inr yc)
    with Cons.prems have "\<exists>r\<in>set roles. isl (lookup_llm_conf r conf)"
      and "\<forall>r\<in>set roles. map_of get_llm_type_config_keys r \<noteq> None"
      by auto
    from Cons.IH [OF this] show ?thesis by (simp only: loop_step_ok [OF Inr])
  qed
qed

lemma isl_merge_llm_conf: "isl (merge_llm_conf w r conf) = isl (lookup_llm_conf r conf)"
  by (simp add: merge_llm_conf_def split: sum.splits)

lemma LLMType_args_known: "\<forall>r\<in>set LLMType_args. map_of get_llm_type_config_keys r \<noteq> None"
  by (simp add: LLMType_args_def get_llm_type_config_keys_def)

lemma LLMType_args_distinct: "distinct LLMType_args"
  by (simp add: LLMType_args_def)

text \<open>
  C7. \<open>get_configured_llm_models\<close> never raises: in every environment it returns a
  mapping. When the loader raises, or the loaded configuration or the sub-section of a
  role is not a mapping, it prints the warning and returns the empty mapping. Otherwise it
  prints nothing and maps each role that has a configured model name in the merge of YAML
  and environment (line 107: no probing, no defaults) to the list holding that name; a
  role without a model name is not a key of the result.
\<close>

theorem reporter_totality:
  "(\<exists>cm out. get_configured_llm_models w = (Inr cm, out)) \<and>
   (load_yaml_config w = Inl e \<longrightarrow>
      get_configured_llm_models w =
        (Inr [], [(''Warning: Failed to load LLM configuration: '', e)])) \<and>
   (load_yaml_config w = Inr conf \<and> (\<exists>r\<in>set LLMType_args. isl (merge_llm_conf w r conf)) \<longrightarrow>
      (\<exists>e'. get_configured_llm_models w =
               (Inr [], [(''Warning: Failed to load LLM configuration: '', e')]))) \<and>
   (load_yaml_config w = Inr conf \<and> (\<forall>r\<in>set LLMType_args. \<not> isl (merge_llm_conf w r conf)) \<longrightarrow>
      (\<exists>cm. get_configured_llm_models w = (Inr cm, []) \<and>
            (\<forall>r. map_of cm r =
                   (if r \<in> set LLMType_args
                    then (case configured_model w conf r of None \<Rightarrow> None | Some v \<Rightarrow> Some [v])
                    else None))))"
proof (intro conjI impI)
  show "\<exists>cm out. get_configured_llm_models w = (Inr cm, out)"
    by (cases "configured_models_body w") (simp_all add: get_configured_llm_models_def)
next
  assume "load_yaml_config w = Inl e"
  then show "get_configured_llm_models w =
      (Inr [], [(''Warning: Failed to load LLM configuration: '', e)])"
    by (simp add: get_configured_llm_models_def configured_models_body_def)
next
  assume a: "load_yaml_config w = Inr conf \<and> (\<exists>r\<in>set LLMType_args. isl (merge_llm_conf w r conf))"
  then have "\<exists>r\<in>set LLMType_args. isl (lookup_llm_conf r conf)"
    by (simp add: isl_merge_llm_conf)
  from loop_fail [OF this LLMType_args_known, of w "[]"] obtain e' where
    "configured_models_loop w conf LLMType_args [] = Inl e'" by blast
  with a have "get_configured_llm_models w =
      (Inr [], [(''Warning: Failed to load LLM configuration: '', e')])"
    by (simp add: get_configured_llm_models_def configured_models_body_def)
  then show "\<exists>e'. get_configured_llm_models w =
      (Inr [], [(''Warning: Failed to load LLM configuration: '', e')])" ..
next
  assume a: "load_yaml_config w = Inr conf \<and> (\<forall>r\<in>set LLMType_args. \<not> isl (merge_llm_conf w r conf))"
  have "\<forall>r\<in>set LLMType_args. \<exists>yc. lookup_llm_conf r conf = Inr yc"
  proof
    fix r assume "r \<in> set LLMType_args"
    with a have "\<not> isl (lookup_llm_conf r conf)" by (simp add: isl_merge_llm_conf)
    then show "\<exists>yc. lookup_llm_conf r conf = Inr yc" by (cases "lookup_llm_conf r conf") simp_all
  qed
  from loop_ok [OF this LLMType_args_distinct, of w "[]"] obtain cm where
    r: "configured_models_loop w conf LLMType_args [] = Inr cm"
    and l: "\<forall>r. map_of cm r =
                  (if r \<in> set LLMType_args
                   then (case configured_model w conf r of
                           None \<Rightarrow> map_of [] r
                         | Some v \<Rightarrow>
                             Some ((case map_of [] r of None \<Rightarrow> [] | Some names \<Rightarrow> names) @ [v]))
                   else map_of [] r)"
    by blast
  from a r have "get_configured_llm_models w = (Inr cm, [])"
    by (simp add: get_configured_llm_models_def configured_models_body_def)
  moreover from l have "\<forall>r. map_of cm r =
                   (if r \<in> set LLMType_args
                    then (case configured_model w conf r of None \<Rightarrow> None | Some v \<Rightarrow> Some [v])
                    else None)"
    by (simp split: option.splits)
  ultimately show "\<exists>cm. get_configured_llm_models w = (Inr cm, []) \<and>
            (\<forall>r. map_of cm r =
                   (if r \<in> set LLMType_args
                    then (case configured_model w conf r of None \<Rightarrow> None | Some v \<Rightarrow> Some [v])
                    else None))"
    by blast
qed

lemmas reporter_eval = get_configured_llm_models_def configured_models_body_def LLMType_args_def
  get_llm_type_config_keys_def env_eval append_model_def Let_def

text \<open>
  A loader that raises and a \<open>BASIC_MODEL\<close> section that is a string give the empty
  report and a warning; a well-formed configuration gives the model names of \<open>basic\<close>
  (from the file) and \<open>vision\<close> (from the environment).
\<close>

theorem reporter_totality_witness:
  "load_yaml_config world_yaml_error = Inl (Exc ExternalError [Lit ''YAMLError'']) \<and>
   get_configured_llm_models world_yaml_error =
     (Inr [], [(''Warning: Failed to load LLM configuration: '', Exc ExternalError [Lit ''YAMLError''])]) \<and>
   isl (merge_llm_conf world_bad_section ''basic'' yaml_basic_string) \<and>
   get_configured_llm_models world_bad_section =
     (Inr [], [(''Warning: Failed to load LLM configuration: '', Exc TypeError [])]) \<and>
   get_configured_llm_models world_models =
     (Inr [(''basic'', [PStr ''gpt-4o'']), (''vision'', [PStr ''qwen-vl''])], [])"
proof -
  have l: "load_yaml_config world_yaml_error = Inl (Exc ExternalError [Lit ''YAMLError''])"
    by (simp add: world_yaml_error_def)
  note t = reporter_totality [of world_yaml_error "Exc ExternalError [Lit ''YAMLError'']",
      THEN conjunct2, THEN conjunct1, THEN mp, OF l]
  have b: "isl (merge_llm_conf world_bad_section ''basic'' yaml_basic_string)"
    by (simp add: merge_llm_conf_def lookup_eval yaml_basic_string_def)
  have g2: "get_configured_llm_models world_bad_section =
     (Inr [], [(''Warning: Failed to load LLM configuration: '', Exc TypeError [])])"
    by (simp add: reporter_eval world_bad_section_def yaml_basic_string_def)
  have g3: "get_configured_llm_models world_models =
     (Inr [(''basic'', [PStr ''gpt-4o'']), (''vision'', [PStr ''qwen-vl''])], [])"
    by (simp add: reporter_eval world_models_def)
  from l t b g2 g3 show ?thesis by simp
qed

end
